theory Spec2Isabelle
  imports Main
begin

section \<open>Data model\<close>

text \<open>
  The rows handled by the controllers (project.controller.ts, task.controller.ts,
  user.controller.ts).  Identifiers are the strings Express passes around; a date
  is the number of milliseconds a JavaScript \<open>Date\<close> holds.  The Prisma schema
  file is not part of the sources: the column lists are the fields the controllers
  and prisma/seed.ts read and write.
\<close>

type_synonym ident = string
type_synonym date = int

datatype ProjectStatus = ACTIVE | COMPLETED | ARCHIVED
datatype TaskStatus = TODO | IN_PROGRESS | IN_REVIEW | DONE
datatype Priority = LOW | MEDIUM | HIGH | URGENT
datatype Role = ADMIN | USER

record user =
  user_id :: ident
  email :: string
  firstName :: string
  lastName :: string
  user_role :: Role
  isActive :: bool

record project =
  project_id :: ident
  project_name :: string
  project_description :: "string option"
  project_status :: ProjectStatus
  ownerId :: ident
  startDate :: "date option"
  endDate :: "date option"
  createdAt :: date

record projectMember =
  member_id :: ident
  member_projectId :: ident
  member_userId :: ident
  member_role :: string

record task =
  task_id :: ident
  title :: string
  task_description :: "string option"
  task_status :: TaskStatus
  priority :: Priority
  task_projectId :: ident
  assigneeId :: "ident option"
  dueDate :: "date option"

record comment =
  comment_id :: ident
  content :: string
  taskId :: ident
  authorId :: ident

text \<open>The database: one list of rows per table, in insertion order.\<close>

record db =
  users :: "user list"
  projects :: "project list"
  projectMembers :: "projectMember list"
  tasks :: "task list"
  comments :: "comment list"

section \<open>Responses and the error middleware\<close>

text \<open>
  What \<open>res.status(n).json({success, message, errors, data})\<close> sends.  The
  \<open>include\<close> and \<open>select\<close> clauses of the queries only decorate or project the
  returned rows; the payload here is the row itself.
\<close>

datatype payload =
    NoData
  | ProjectList "project list"
  | ProjectData project
  | TaskList "task list"
  | TaskData task
  | MemberData projectMember
  | UserList "user list"
  | UserData user
  | CommentData comment

record response =
  res_status :: nat
  res_success :: bool
  res_message :: "string option"
  res_errors :: "string list"
  res_data :: payload

definition ok :: "nat \<Rightarrow> string option \<Rightarrow> payload \<Rightarrow> response" where
  "ok code msg d =
     \<lparr>res_status = code, res_success = True, res_message = msg, res_errors = [], res_data = d\<rparr>"

definition fail :: "nat \<Rightarrow> string \<Rightarrow> response" where
  "fail code msg =
     \<lparr>res_status = code, res_success = False, res_message = Some msg, res_errors = [],
      res_data = NoData\<rparr>"

text \<open>The \<open>catch\<close> branch for a \<open>z.ZodError\<close>: status 400 with the list of issues
  (here: the names of the offending fields).\<close>

definition zodError :: "string list \<Rightarrow> response" where
  "zodError issues =
     \<lparr>res_status = 400, res_success = False, res_message = Some ''Validation error'',
      res_errors = issues, res_data = NoData\<rparr>"

text \<open>The errors Prisma throws that reach \<open>next(error)\<close>, and error.middleware.ts.\<close>

datatype prismaError = P2002 | P2025 | P2003 | OtherKnownRequestError | PrismaClientValidationError

fun errorHandler :: "prismaError \<Rightarrow> response" where
  "errorHandler P2002 = fail 409 ''A record with this value already exists''"
| "errorHandler P2025 = fail 404 ''Record not found''"
| "errorHandler P2003 = fail 400 ''Invalid foreign key reference''"
| "errorHandler OtherKnownRequestError = fail 500 ''Database error occurred''"
| "errorHandler PrismaClientValidationError = fail 400 ''Invalid data provided''"

section \<open>Query helpers\<close>

text \<open>JavaScript truthiness of an optional string (\<open>if (status)\<close>, \<open>role || 'MEMBER'\<close>):
  \<open>undefined\<close> and the empty string are falsy.\<close>

definition truthy :: "string option \<Rightarrow> bool" where
  "truthy q = (q \<noteq> None \<and> q \<noteq> Some [])"

text \<open>\<open>findFirst\<close>: the first row that satisfies the \<open>where\<close> clause, or null.\<close>

definition findFirst :: "('a \<Rightarrow> bool) \<Rightarrow> 'a list \<Rightarrow> 'a option" where
  "findFirst w rows = find w rows"

text \<open>\<open>{ contains: s, mode: 'insensitive' }\<close>: substring test after folding the
  ASCII letters to lower case.\<close>

definition lowerChar :: "char \<Rightarrow> char" where
  "lowerChar c =
     (case map_of (zip ''ABCDEFGHIJKLMNOPQRSTUVWXYZ'' ''abcdefghijklmnopqrstuvwxyz'') c of
        None \<Rightarrow> c
      | Some l \<Rightarrow> l)"

fun containsStr :: "string \<Rightarrow> string \<Rightarrow> bool" where
  "containsStr [] sub = (sub = [])"
| "containsStr (c # cs) sub = (take (length sub) (c # cs) = sub \<or> containsStr cs sub)"

definition containsInsensitive :: "string \<Rightarrow> string \<Rightarrow> bool" where
  "containsInsensitive s sub = containsStr (map lowerChar s) (map lowerChar sub)"

text \<open>\<open>orderBy\<close>: a stable sort; \<open>before x y\<close> says that \<open>x\<close> may stand before \<open>y\<close>.\<close>

fun insertBy :: "('a \<Rightarrow> 'a \<Rightarrow> bool) \<Rightarrow> 'a \<Rightarrow> 'a list \<Rightarrow> 'a list" where
  "insertBy before x [] = [x]"
| "insertBy before x (y # ys) =
     (if before x y then x # y # ys else y # insertBy before x ys)"

definition orderBy :: "('a \<Rightarrow> 'a \<Rightarrow> bool) \<Rightarrow> 'a list \<Rightarrow> 'a list" where
  "orderBy before rows = foldr (insertBy before) rows []"

text \<open>The enum a query string names, if any; Prisma rejects any other string.\<close>

definition parseProjectStatus :: "string \<Rightarrow> ProjectStatus option" where
  "parseProjectStatus s =
     (if s = ''ACTIVE'' then Some ACTIVE
      else if s = ''COMPLETED'' then Some COMPLETED
      else if s = ''ARCHIVED'' then Some ARCHIVED
      else None)"

definition parseTaskStatus :: "string \<Rightarrow> TaskStatus option" where
  "parseTaskStatus s =
     (if s = ''TODO'' then Some TODO
      else if s = ''IN_PROGRESS'' then Some IN_PROGRESS
      else if s = ''IN_REVIEW'' then Some IN_REVIEW
      else if s = ''DONE'' then Some DONE
      else None)"

definition parsePriority :: "string \<Rightarrow> Priority option" where
  "parsePriority s =
     (if s = ''LOW'' then Some LOW
      else if s = ''MEDIUM'' then Some MEDIUM
      else if s = ''HIGH'' then Some HIGH
      else if s = ''URGENT'' then Some URGENT
      else None)"

definition parseRole :: "string \<Rightarrow> Role option" where
  "parseRole s =
     (if s = ''ADMIN'' then Some ADMIN
      else if s = ''USER'' then Some USER
      else None)"

section \<open>The access predicates of the where clauses\<close>

text \<open>\<open>OR: [{ ownerId: userId }, { members: { some: { userId } } }]\<close>\<close>

definition ownerOrMember :: "db \<Rightarrow> ident \<Rightarrow> project \<Rightarrow> bool" where
  "ownerOrMember d userId p =
     (ownerId p = userId \<or>
      (\<exists>m \<in> set (projectMembers d). member_projectId m = project_id p \<and> member_userId m = userId))"

text \<open>\<open>project: { OR: [...] }\<close> on a task: the project the task belongs to passes.\<close>

definition taskProjectVisible :: "db \<Rightarrow> ident \<Rightarrow> task \<Rightarrow> bool" where
  "taskProjectVisible d userId t =
     (\<exists>p \<in> set (projects d). project_id p = task_projectId t \<and> ownerOrMember d userId p)"

section \<open>project.controller.ts\<close>

text \<open>The \<open>where\<close> object of getProjects: its \<open>OR\<close> key and its \<open>status\<close> key.\<close>

record projectWhere =
  where_OR :: "project \<Rightarrow> bool"
  where_status :: "string option"

definition getProjects :: "db \<Rightarrow> ident \<Rightarrow> string option \<Rightarrow> string option \<Rightarrow> response \<times> db" where
  "getProjects d userId status search =
     (let where0 = \<lparr>where_OR = ownerOrMember d userId, where_status = None\<rparr>;
          where1 = (if truthy status then where0\<lparr>where_status := status\<rparr> else where0);
          where2 = (if truthy search
                    then where1\<lparr>where_OR := (\<lambda>p.
                           containsInsensitive (project_name p) (the search) \<or>
                           (case project_description p of
                              None \<Rightarrow> False
                            | Some txt \<Rightarrow> containsInsensitive txt (the search)))\<rparr>
                    else where1)
      in case where_status where2 of
           None \<Rightarrow>
             (ok 200 None (ProjectList
                (orderBy (\<lambda>p q. createdAt q \<le> createdAt p)
                   (filter (where_OR where2) (projects d)))), d)
         | Some s \<Rightarrow>
             (case parseProjectStatus s of
                None \<Rightarrow> (errorHandler PrismaClientValidationError, d)
              | Some st \<Rightarrow>
                  (ok 200 None (ProjectList
                     (orderBy (\<lambda>p q. createdAt q \<le> createdAt p)
                        (filter (\<lambda>p. where_OR where2 p \<and> project_status p = st) (projects d)))),
                   d)))"

definition getProject :: "db \<Rightarrow> ident \<Rightarrow> ident \<Rightarrow> response \<times> db" where
  "getProject d userId i =
     (case findFirst (\<lambda>p. project_id p = i \<and> ownerOrMember d userId p) (projects d) of
        None \<Rightarrow> (fail 404 ''Project not found'', d)
      | Some project \<Rightarrow> (ok 200 None (ProjectData project), d))"

text \<open>
  What the controllers use and the sources do not contain: the string formats of the
  zod library (\<open>.uuid()\<close>, \<open>.datetime()\<close>), the JavaScript \<open>Date\<close> constructor, the
  collation the database sorts text with, and the default priority column value of
  the Prisma schema.  They are parameters of the model.
\<close>

record externals =
  isUuid :: "string \<Rightarrow> bool"
  isDatetime :: "string \<Rightarrow> bool"
  toDate :: "string \<Rightarrow> date"
  collateLe :: "string \<Rightarrow> string \<Rightarrow> bool"
  defaultPriority :: Priority

text \<open>\<open>z.string().min(lo).max(hi)\<close> on a required or optional field, and the other
  optional fields: the issue list of one field.  A body field is a string or absent
  (\<open>None\<close>); the length of a string is its number of characters.\<close>

definition issueIf :: "bool \<Rightarrow> string \<Rightarrow> string list" where
  "issueIf bad field = (if bad then [field] else [])"

definition optionalBad :: "('a \<Rightarrow> bool) \<Rightarrow> 'a option \<Rightarrow> bool" where
  "optionalBad good v = (case v of None \<Rightarrow> False | Some x \<Rightarrow> \<not> good x)"

definition lengthBetween :: "nat \<Rightarrow> nat \<Rightarrow> string \<Rightarrow> bool" where
  "lengthBetween lo hi s = (lo \<le> length s \<and> length s \<le> hi)"

record updateProjectBody =
  upb_name :: "string option"
  upb_description :: "string option"
  upb_status :: "string option"
  upb_startDate :: "string option"
  upb_endDate :: "string option"

definition updateProjectSchema :: "externals \<Rightarrow> updateProjectBody \<Rightarrow> string list" where
  "updateProjectSchema X b =
     issueIf (optionalBad (lengthBetween 3 100) (upb_name b)) ''name'' @
     issueIf (optionalBad (\<lambda>s. parseProjectStatus s \<noteq> None) (upb_status b)) ''status'' @
     issueIf (optionalBad (isDatetime X) (upb_startDate b)) ''startDate'' @
     issueIf (optionalBad (isDatetime X) (upb_endDate b)) ''endDate''"

text \<open>The \<open>data\<close> object of \<open>prisma.project.update\<close>: an undefined key leaves the
  column as it is.\<close>

definition updateProjectData :: "externals \<Rightarrow> updateProjectBody \<Rightarrow> project \<Rightarrow> project" where
  "updateProjectData X b p =
     p\<lparr>project_name := (case upb_name b of None \<Rightarrow> project_name p | Some n \<Rightarrow> n),
       project_description :=
         (case upb_description b of None \<Rightarrow> project_description p | Some txt \<Rightarrow> Some txt),
       project_status :=
         (case Option.bind (upb_status b) parseProjectStatus of
            None \<Rightarrow> project_status p
          | Some st \<Rightarrow> st),
       startDate :=
         (if truthy (upb_startDate b) then Some (toDate X (the (upb_startDate b)))
          else startDate p),
       endDate :=
         (if truthy (upb_endDate b) then Some (toDate X (the (upb_endDate b)))
          else endDate p)\<rparr>"

definition updateProject ::
  "externals \<Rightarrow> db \<Rightarrow> ident \<Rightarrow> ident \<Rightarrow> updateProjectBody \<Rightarrow> response \<times> db" where
  "updateProject X d userId i b =
     (if updateProjectSchema X b \<noteq> [] then (zodError (updateProjectSchema X b), d)
      else
        case findFirst (\<lambda>p. project_id p = i \<and> ownerId p = userId) (projects d) of
          None \<Rightarrow>
            (fail 404 ''Project not found or you do not have permission to update it'', d)
        | Some existingProject \<Rightarrow>
            (ok 200 (Some ''Project updated successfully'')
               (ProjectData (updateProjectData X b existingProject)),
             d\<lparr>projects :=
                 map (\<lambda>p. if project_id p = i then updateProjectData X b p else p)
                   (projects d)\<rparr>))"

text \<open>
  Modelled from the spec: the Prisma schema is not among the sources, so the keys and
  references of the tables are those of the spec's data model.  A project owns its
  memberships and tasks and a task owns its comments (deleting the owner deletes
  them); ids are unique per table; a (projectId, userId) pair appears at most once
  among the memberships; a membership's user, a task's assignee and a comment's
  author are existing users.  A violated unique key is Prisma's P2002, a violated
  reference P2003, a delete of a missing row P2025.
\<close>

definition deleteProjectRows :: "db \<Rightarrow> ident \<Rightarrow> db" where
  "deleteProjectRows d i =
     d\<lparr>projects := filter (\<lambda>p. project_id p \<noteq> i) (projects d),
       projectMembers := filter (\<lambda>m. member_projectId m \<noteq> i) (projectMembers d),
       tasks := filter (\<lambda>t. task_projectId t \<noteq> i) (tasks d),
       comments :=
         filter (\<lambda>c. \<not> (\<exists>t \<in> set (tasks d). task_id t = taskId c \<and> task_projectId t = i))
           (comments d)\<rparr>"

definition createMemberRow :: "db \<Rightarrow> projectMember \<Rightarrow> prismaError + db" where
  "createMemberRow d m =
     (if (\<exists>x \<in> set (projectMembers d). member_id x = member_id m \<or>
            (member_projectId x = member_projectId m \<and> member_userId x = member_userId m))
      then Inl P2002
      else if \<not> (\<exists>u \<in> set (users d). user_id u = member_userId m) \<or>
              \<not> (\<exists>p \<in> set (projects d). project_id p = member_projectId m)
      then Inl P2003
      else Inr (d\<lparr>projectMembers := projectMembers d @ [m]\<rparr>))"

definition deleteMemberRow :: "db \<Rightarrow> ident \<Rightarrow> prismaError + db" where
  "deleteMemberRow d memberId =
     (if \<exists>m \<in> set (projectMembers d). member_id m = memberId
      then Inr (d\<lparr>projectMembers := filter (\<lambda>m. member_id m \<noteq> memberId) (projectMembers d)\<rparr>)
      else Inl P2025)"

definition deleteProject :: "db \<Rightarrow> ident \<Rightarrow> ident \<Rightarrow> response \<times> db" where
  "deleteProject d userId i =
     (case findFirst (\<lambda>p. project_id p = i \<and> ownerId p = userId) (projects d) of
        None \<Rightarrow>
          (fail 404 ''Project not found or you do not have permission to delete it'', d)
      | Some existingProject \<Rightarrow>
          (ok 200 (Some ''Project deleted successfully'') NoData, deleteProjectRows d i))"

record addMemberBody =
  amb_userId :: "string option"
  amb_role :: "string option"

text \<open>\<open>newId\<close> is the id the database generates for the new row.  A request body
  without \<open>userId\<close> makes \<open>findUnique\<close> throw Prisma's validation error.\<close>

definition addMember ::
  "db \<Rightarrow> ident \<Rightarrow> ident \<Rightarrow> addMemberBody \<Rightarrow> ident \<Rightarrow> response \<times> db" where
  "addMember d userId i b newId =
     (case findFirst (\<lambda>p. project_id p = i \<and> ownerId p = userId) (projects d) of
        None \<Rightarrow> (fail 404 ''Project not found or you do not have permission'', d)
      | Some project \<Rightarrow>
          (case amb_userId b of
             None \<Rightarrow> (errorHandler PrismaClientValidationError, d)
           | Some memberUserId \<Rightarrow>
               (case findFirst
                       (\<lambda>m. member_projectId m = i \<and> member_userId m = memberUserId)
                       (projectMembers d) of
                  Some existingMember \<Rightarrow>
                    (fail 400 ''User is already a member of this project'', d)
                | None \<Rightarrow>
                    (let member =
                           \<lparr>member_id = newId, member_projectId = i,
                            member_userId = memberUserId,
                            member_role =
                              (if truthy (amb_role b) then the (amb_role b) else ''MEMBER'')\<rparr>
                     in case createMemberRow d member of
                          Inl e \<Rightarrow> (errorHandler e, d)
                        | Inr d' \<Rightarrow>
                            (ok 201 (Some ''Member added successfully'') (MemberData member),
                             d')))))"

definition removeMember :: "db \<Rightarrow> ident \<Rightarrow> ident \<Rightarrow> ident \<Rightarrow> response \<times> db" where
  "removeMember d userId i memberId =
     (case findFirst (\<lambda>p. project_id p = i \<and> ownerId p = userId) (projects d) of
        None \<Rightarrow> (fail 404 ''Project not found or you do not have permission'', d)
      | Some project \<Rightarrow>
          (case deleteMemberRow d memberId of
             Inl e \<Rightarrow> (errorHandler e, d)
           | Inr d' \<Rightarrow> (ok 200 (Some ''Member removed successfully'') NoData, d')))"

section \<open>task.controller.ts\<close>

text \<open>
  \<open>orderBy: [{ status: 'asc' }, { priority: 'desc' }, { dueDate: 'asc' }]\<close>.
  A column value is compared through its sort key; \<open>None\<close> is SQL's NULL, which
  PostgreSQL treats as larger than every value (last when ascending, first when
  descending).  Modelled from the spec: the enum declarations of the Prisma schema are
  not among the sources; an enum sorts in the order the spec and the zod schemas list
  its values (TODO, IN_PROGRESS, IN_REVIEW, DONE and LOW, MEDIUM, HIGH, URGENT).
\<close>

datatype sortOrder = asc | desc
datatype taskColumn = col_status | col_priority | col_dueDate

fun statusRank :: "TaskStatus \<Rightarrow> int" where
  "statusRank TODO = 0"
| "statusRank IN_PROGRESS = 1"
| "statusRank IN_REVIEW = 2"
| "statusRank DONE = 3"

fun priorityRank :: "Priority \<Rightarrow> int" where
  "priorityRank LOW = 0"
| "priorityRank MEDIUM = 1"
| "priorityRank HIGH = 2"
| "priorityRank URGENT = 3"

fun sortKey :: "taskColumn \<Rightarrow> task \<Rightarrow> int option" where
  "sortKey col_status t = Some (statusRank (task_status t))"
| "sortKey col_priority t = Some (priorityRank (priority t))"
| "sortKey col_dueDate t = dueDate t"

fun keyLess :: "int option \<Rightarrow> int option \<Rightarrow> bool" where
  "keyLess (Some x) (Some y) = (x < y)"
| "keyLess (Some x) None = True"
| "keyLess None k = False"

fun strictlyBefore :: "sortOrder \<Rightarrow> int option \<Rightarrow> int option \<Rightarrow> bool" where
  "strictlyBefore asc a b = keyLess a b"
| "strictlyBefore desc a b = keyLess b a"

fun taskBefore :: "(taskColumn \<times> sortOrder) list \<Rightarrow> task \<Rightarrow> task \<Rightarrow> bool" where
  "taskBefore [] a b = True"
| "taskBefore ((col, dir) # rest) a b =
     (strictlyBefore dir (sortKey col a) (sortKey col b) \<or>
      (sortKey col a = sortKey col b \<and> taskBefore rest a b))"

definition getTasks ::
  "db \<Rightarrow> ident \<Rightarrow> string option \<Rightarrow> string option \<Rightarrow> string option \<Rightarrow> string option
     \<Rightarrow> response \<times> db" where
  "getTasks d userId projectId status priority' assigneeId' =
     (if truthy status \<and> parseTaskStatus (the status) = None
      then (errorHandler PrismaClientValidationError, d)
      else if truthy priority' \<and> parsePriority (the priority') = None
      then (errorHandler PrismaClientValidationError, d)
      else
        (ok 200 None (TaskList
           (orderBy (taskBefore [(col_status, asc), (col_priority, desc), (col_dueDate, asc)])
              (filter
                 (\<lambda>t. taskProjectVisible d userId t \<and>
                      (truthy projectId \<longrightarrow> task_projectId t = the projectId) \<and>
                      (truthy status \<longrightarrow> Some (task_status t) = parseTaskStatus (the status)) \<and>
                      (truthy priority' \<longrightarrow> Some (priority t) = parsePriority (the priority')) \<and>
                      (truthy assigneeId' \<longrightarrow> assigneeId t = assigneeId'))
                 (tasks d)))),
         d))"

definition getTask :: "db \<Rightarrow> ident \<Rightarrow> ident \<Rightarrow> response \<times> db" where
  "getTask d userId i =
     (case findFirst (\<lambda>t. task_id t = i \<and> taskProjectVisible d userId t) (tasks d) of
        None \<Rightarrow> (fail 404 ''Task not found'', d)
      | Some task \<Rightarrow> (ok 200 None (TaskData task), d))"

record createTaskBody =
  ctb_title :: "string option"
  ctb_description :: "string option"
  ctb_projectId :: "string option"
  ctb_priority :: "string option"
  ctb_dueDate :: "string option"
  ctb_assigneeId :: "string option"

definition createTaskSchema :: "externals \<Rightarrow> createTaskBody \<Rightarrow> string list" where
  "createTaskSchema X b =
     issueIf (case ctb_title b of None \<Rightarrow> True | Some s \<Rightarrow> \<not> lengthBetween 3 200 s) ''title'' @
     issueIf (case ctb_projectId b of None \<Rightarrow> True | Some s \<Rightarrow> \<not> isUuid X s) ''projectId'' @
     issueIf (optionalBad (\<lambda>s. parsePriority s \<noteq> None) (ctb_priority b)) ''priority'' @
     issueIf (optionalBad (isDatetime X) (ctb_dueDate b)) ''dueDate'' @
     issueIf (optionalBad (isUuid X) (ctb_assigneeId b)) ''assigneeId''"

text \<open>The row \<open>prisma.task.create\<close> is asked to store.  Modelled from the spec: a new
  task starts in status TODO (the column default of the absent Prisma schema).\<close>

definition newTask :: "externals \<Rightarrow> createTaskBody \<Rightarrow> ident \<Rightarrow> task" where
  "newTask X b newId =
     \<lparr>task_id = newId,
      title = the (ctb_title b),
      task_description = ctb_description b,
      task_status = TODO,
      priority =
        (case Option.bind (ctb_priority b) parsePriority of
           None \<Rightarrow> defaultPriority X
         | Some pr \<Rightarrow> pr),
      task_projectId = the (ctb_projectId b),
      assigneeId = ctb_assigneeId b,
      dueDate =
        (if truthy (ctb_dueDate b) then Some (toDate X (the (ctb_dueDate b))) else None)\<rparr>"

definition createTaskRow :: "db \<Rightarrow> task \<Rightarrow> prismaError + db" where
  "createTaskRow d t =
     (if \<exists>x \<in> set (tasks d). task_id x = task_id t then Inl P2002
      else if \<not> (\<exists>p \<in> set (projects d). project_id p = task_projectId t) \<or>
              (case assigneeId t of
                 None \<Rightarrow> False
               | Some a \<Rightarrow> \<not> (\<exists>u \<in> set (users d). user_id u = a))
      then Inl P2003
      else Inr (d\<lparr>tasks := tasks d @ [t]\<rparr>))"

definition createTask ::
  "externals \<Rightarrow> db \<Rightarrow> ident \<Rightarrow> createTaskBody \<Rightarrow> ident \<Rightarrow> response \<times> db" where
  "createTask X d userId b newId =
     (if createTaskSchema X b \<noteq> [] then (zodError (createTaskSchema X b), d)
      else
        case findFirst
               (\<lambda>p. project_id p = the (ctb_projectId b) \<and> ownerOrMember d userId p)
               (projects d) of
          None \<Rightarrow> (fail 404 ''Project not found or you do not have access'', d)
        | Some project \<Rightarrow>
            (if truthy (ctb_assigneeId b) \<and>
                findFirst
                  (\<lambda>p. project_id p = the (ctb_projectId b) \<and>
                       ownerOrMember d (the (ctb_assigneeId b)) p)
                  (projects d) = None
             then (fail 400 ''Assignee does not have access to this project'', d)
             else
               case createTaskRow d (newTask X b newId) of
                 Inl e \<Rightarrow> (errorHandler e, d)
               | Inr d' \<Rightarrow>
                   (ok 201 (Some ''Task created successfully'') (TaskData (newTask X b newId)),
                    d')))"

text \<open>A JSON field that may be absent, \<open>null\<close> or a value (\<open>.optional().nullable()\<close>).\<close>

datatype 'a nullable = Undefined | Null | Value 'a

record updateTaskBody =
  utb_title :: "string option"
  utb_description :: "string option"
  utb_status :: "string option"
  utb_priority :: "string option"
  utb_dueDate :: "string option"
  utb_assigneeId :: "string nullable"

definition updateTaskSchema :: "externals \<Rightarrow> updateTaskBody \<Rightarrow> string list" where
  "updateTaskSchema X b =
     issueIf (optionalBad (lengthBetween 3 200) (utb_title b)) ''title'' @
     issueIf (optionalBad (\<lambda>s. parseTaskStatus s \<noteq> None) (utb_status b)) ''status'' @
     issueIf (optionalBad (\<lambda>s. parsePriority s \<noteq> None) (utb_priority b)) ''priority'' @
     issueIf (optionalBad (isDatetime X) (utb_dueDate b)) ''dueDate'' @
     issueIf (case utb_assigneeId b of Value s \<Rightarrow> \<not> isUuid X s | _ \<Rightarrow> False) ''assigneeId''"

definition updateTaskData :: "externals \<Rightarrow> updateTaskBody \<Rightarrow> task \<Rightarrow> task" where
  "updateTaskData X b t =
     t\<lparr>title := (case utb_title b of None \<Rightarrow> title t | Some s \<Rightarrow> s),
       task_description :=
         (case utb_description b of None \<Rightarrow> task_description t | Some txt \<Rightarrow> Some txt),
       task_status :=
         (case Option.bind (utb_status b) parseTaskStatus of
            None \<Rightarrow> task_status t
          | Some st \<Rightarrow> st),
       priority :=
         (case Option.bind (utb_priority b) parsePriority of
            None \<Rightarrow> priority t
          | Some pr \<Rightarrow> pr),
       assigneeId :=
         (case utb_assigneeId b of
            Undefined \<Rightarrow> assigneeId t
          | Null \<Rightarrow> None
          | Value a \<Rightarrow> Some a),
       dueDate :=
         (if truthy (utb_dueDate b) then Some (toDate X (the (utb_dueDate b)))
          else dueDate t)\<rparr>"

text \<open>\<open>prisma.task.update({ where: { id }, data })\<close>: the new assignee must be an
  existing user (P2003 otherwise).\<close>

definition updateTaskRow :: "db \<Rightarrow> ident \<Rightarrow> (task \<Rightarrow> task) \<Rightarrow> prismaError + db" where
  "updateTaskRow d i f =
     (if \<exists>t \<in> set (tasks d). task_id t = i \<and>
           (case assigneeId (f t) of
              None \<Rightarrow> False
            | Some a \<Rightarrow> \<not> (\<exists>u \<in> set (users d). user_id u = a))
      then Inl P2003
      else Inr (d\<lparr>tasks := map (\<lambda>t. if task_id t = i then f t else t) (tasks d)\<rparr>))"

definition updateTask ::
  "externals \<Rightarrow> db \<Rightarrow> ident \<Rightarrow> ident \<Rightarrow> updateTaskBody \<Rightarrow> response \<times> db" where
  "updateTask X d userId i b =
     (if updateTaskSchema X b \<noteq> [] then (zodError (updateTaskSchema X b), d)
      else
        case findFirst (\<lambda>t. task_id t = i \<and> taskProjectVisible d userId t) (tasks d) of
          None \<Rightarrow> (fail 404 ''Task not found or you do not have permission'', d)
        | Some existingTask \<Rightarrow>
            (case updateTaskRow d i (updateTaskData X b) of
               Inl e \<Rightarrow> (errorHandler e, d)
             | Inr d' \<Rightarrow>
                 (ok 200 (Some ''Task updated successfully'')
                    (TaskData (updateTaskData X b existingTask)),
                  d')))"

text \<open>\<open>status\<close> comes from the request body unvalidated; \<open>None\<close> stands for a body
  without a string under that key.\<close>

definition updateTaskStatus :: "db \<Rightarrow> ident \<Rightarrow> ident \<Rightarrow> string option \<Rightarrow> response \<times> db" where
  "updateTaskStatus d userId i status =
     (if \<not> (case status of
               None \<Rightarrow> False
             | Some s \<Rightarrow> s \<in> set [''TODO'', ''IN_PROGRESS'', ''IN_REVIEW'', ''DONE''])
      then (fail 400 ''Invalid status'', d)
      else
        case findFirst (\<lambda>t. task_id t = i \<and> taskProjectVisible d userId t) (tasks d) of
          None \<Rightarrow> (fail 404 ''Task not found or you do not have permission'', d)
        | Some existingTask \<Rightarrow>
            (case Option.bind status parseTaskStatus of
               None \<Rightarrow> (errorHandler PrismaClientValidationError, d)
             | Some st \<Rightarrow>
                 (ok 200 (Some ''Task status updated successfully'')
                    (TaskData (existingTask\<lparr>task_status := st\<rparr>)),
                  d\<lparr>tasks :=
                      map (\<lambda>t. if task_id t = i then t\<lparr>task_status := st\<rparr> else t)
                        (tasks d)\<rparr>)))"

definition deleteTask :: "db \<Rightarrow> ident \<Rightarrow> ident \<Rightarrow> response \<times> db" where
  "deleteTask d userId i =
     (case findFirst (\<lambda>t. task_id t = i \<and> taskProjectVisible d userId t) (tasks d) of
        None \<Rightarrow> (fail 404 ''Task not found or you do not have permission'', d)
      | Some existingTask \<Rightarrow>
          (ok 200 (Some ''Task deleted successfully'') NoData,
           d\<lparr>tasks := filter (\<lambda>t. task_id t \<noteq> i) (tasks d),
             comments := filter (\<lambda>c. taskId c \<noteq> i) (comments d)\<rparr>))"

text \<open>\<open>content.trim().length === 0\<close>: only white space (the ASCII part of what
  \<open>trim\<close> removes).  The content of a comment is a string or absent (\<open>None\<close>).\<close>

definition isSpace :: "char \<Rightarrow> bool" where
  "isSpace c = (c \<in> set [CHR '' '', CHR 0x09, CHR 0x0A, CHR 0x0B, CHR 0x0C, CHR 0x0D])"

definition createCommentRow :: "db \<Rightarrow> comment \<Rightarrow> prismaError + db" where
  "createCommentRow d c =
     (if \<exists>x \<in> set (comments d). comment_id x = comment_id c then Inl P2002
      else if \<not> (\<exists>t \<in> set (tasks d). task_id t = taskId c) \<or>
              \<not> (\<exists>u \<in> set (users d). user_id u = authorId c)
      then Inl P2003
      else Inr (d\<lparr>comments := comments d @ [c]\<rparr>))"

definition addComment ::
  "db \<Rightarrow> ident \<Rightarrow> ident \<Rightarrow> string option \<Rightarrow> ident \<Rightarrow> response \<times> db" where
  "addComment d userId i content' newId =
     (if \<not> truthy content' \<or> list_all isSpace (the content')
      then (fail 400 ''Comment content is required'', d)
      else
        case findFirst (\<lambda>t. task_id t = i \<and> taskProjectVisible d userId t) (tasks d) of
          None \<Rightarrow> (fail 404 ''Task not found or you do not have permission'', d)
        | Some task \<Rightarrow>
            (let c = \<lparr>comment_id = newId, content = the content', taskId = i,
                      authorId = userId\<rparr>
             in case createCommentRow d c of
                  Inl e \<Rightarrow> (errorHandler e, d)
                | Inr d' \<Rightarrow> (ok 201 (Some ''Comment added successfully'') (CommentData c), d')))"

section \<open>user.controller.ts\<close>

text \<open>Neither handler reads \<open>req.userId\<close>; the actor is the caller the
  \<open>authenticate\<close> middleware let through.\<close>

definition getUsers ::
  "externals \<Rightarrow> db \<Rightarrow> ident \<Rightarrow> string option \<Rightarrow> string option \<Rightarrow> response \<times> db" where
  "getUsers X d actor search role =
     (if truthy role \<and> parseRole (the role) = None
      then (errorHandler PrismaClientValidationError, d)
      else
        (ok 200 None (UserList
           (orderBy (\<lambda>u v. collateLe X (firstName u) (firstName v))
              (filter
                 (\<lambda>u. isActive u \<and>
                      (truthy search \<longrightarrow>
                         containsInsensitive (firstName u) (the search) \<or>
                         containsInsensitive (lastName u) (the search) \<or>
                         containsInsensitive (email u) (the search)) \<and>
                      (truthy role \<longrightarrow> Some (user_role u) = parseRole (the role)))
                 (users d)))),
         d))"

definition getUser :: "db \<Rightarrow> ident \<Rightarrow> ident \<Rightarrow> response \<times> db" where
  "getUser d actor i =
     (case findFirst (\<lambda>u. user_id u = i) (users d) of
        None \<Rightarrow> (fail 404 ''User not found'', d)
      | Some user \<Rightarrow> (ok 200 None (UserData user), d))"

section \<open>The single-resource routes\<close>

text \<open>
  The routes of project.routes.ts and task.routes.ts that address one project or one
  task by the \<open>:id\<close> of the path, with what the handler reads besides (request body;
  for a new comment also the id the database generates).
\<close>

datatype request =
    GetProject ident
  | UpdateProject ident updateProjectBody
  | DeleteProject ident
  | GetTask ident
  | UpdateTask ident updateTaskBody
  | UpdateTaskStatus ident "string option"
  | DeleteTask ident
  | AddComment ident "string option" ident

fun route :: "externals \<Rightarrow> db \<Rightarrow> ident \<Rightarrow> request \<Rightarrow> response \<times> db" where
  "route X d userId (GetProject i) = getProject d userId i"
| "route X d userId (UpdateProject i b) = updateProject X d userId i b"
| "route X d userId (DeleteProject i) = deleteProject d userId i"
| "route X d userId (GetTask i) = getTask d userId i"
| "route X d userId (UpdateTask i b) = updateTask X d userId i b"
| "route X d userId (UpdateTaskStatus i status) = updateTaskStatus d userId i status"
| "route X d userId (DeleteTask i) = deleteTask d userId i"
| "route X d userId (AddComment i content' newId) = addComment d userId i content' newId"

section \<open>The notions of the specification\<close>

text \<open>The resource a request addresses exists.\<close>

fun targetExists :: "db \<Rightarrow> request \<Rightarrow> bool" where
  "targetExists d (GetProject i) = (\<exists>p \<in> set (projects d). project_id p = i)"
| "targetExists d (UpdateProject i b) = (\<exists>p \<in> set (projects d). project_id p = i)"
| "targetExists d (DeleteProject i) = (\<exists>p \<in> set (projects d). project_id p = i)"
| "targetExists d (GetTask i) = (\<exists>t \<in> set (tasks d). task_id t = i)"
| "targetExists d (UpdateTask i b) = (\<exists>t \<in> set (tasks d). task_id t = i)"
| "targetExists d (UpdateTaskStatus i status) = (\<exists>t \<in> set (tasks d). task_id t = i)"
| "targetExists d (DeleteTask i) = (\<exists>t \<in> set (tasks d). task_id t = i)"
| "targetExists d (AddComment i content' newId) = (\<exists>t \<in> set (tasks d). task_id t = i)"

text \<open>The access rules of the specification: a project is read by its owner and its
  members and changed by its owner; a task is read, changed, deleted and commented
  by whoever may read its project.\<close>

definition isOwner :: "db \<Rightarrow> ident \<Rightarrow> ident \<Rightarrow> bool" where
  "isOwner d actor i = (\<exists>p \<in> set (projects d). project_id p = i \<and> ownerId p = actor)"

definition canSeeProject :: "db \<Rightarrow> ident \<Rightarrow> ident \<Rightarrow> bool" where
  "canSeeProject d actor i =
     (\<exists>p \<in> set (projects d). project_id p = i \<and>
        (ownerId p = actor \<or>
         (\<exists>m \<in> set (projectMembers d). member_projectId m = i \<and> member_userId m = actor)))"

definition canSeeTask :: "db \<Rightarrow> ident \<Rightarrow> ident \<Rightarrow> bool" where
  "canSeeTask d actor i =
     (\<exists>t \<in> set (tasks d). task_id t = i \<and> canSeeProject d actor (task_projectId t))"

fun accessGranted :: "db \<Rightarrow> ident \<Rightarrow> request \<Rightarrow> bool" where
  "accessGranted d actor (GetProject i) = canSeeProject d actor i"
| "accessGranted d actor (UpdateProject i b) = isOwner d actor i"
| "accessGranted d actor (DeleteProject i) = isOwner d actor i"
| "accessGranted d actor (GetTask i) = canSeeTask d actor i"
| "accessGranted d actor (UpdateTask i b) = canSeeTask d actor i"
| "accessGranted d actor (UpdateTaskStatus i status) = canSeeTask d actor i"
| "accessGranted d actor (DeleteTask i) = canSeeTask d actor i"
| "accessGranted d actor (AddComment i content' newId) = canSeeTask d actor i"

text \<open>The "not found" outcome: status 404, no data, and a message that is fixed per
  route.\<close>

fun notFoundOf :: "request \<Rightarrow> response" where
  "notFoundOf (GetProject i) = fail 404 ''Project not found''"
| "notFoundOf (UpdateProject i b) =
     fail 404 ''Project not found or you do not have permission to update it''"
| "notFoundOf (DeleteProject i) =
     fail 404 ''Project not found or you do not have permission to delete it''"
| "notFoundOf (GetTask i) = fail 404 ''Task not found''"
| "notFoundOf (UpdateTask i b) = fail 404 ''Task not found or you do not have permission''"
| "notFoundOf (UpdateTaskStatus i status) =
     fail 404 ''Task not found or you do not have permission''"
| "notFoundOf (DeleteTask i) = fail 404 ''Task not found or you do not have permission''"
| "notFoundOf (AddComment i content' newId) =
     fail 404 ''Task not found or you do not have permission''"

text \<open>The request body is well-formed, so that the handler reaches its lookup.\<close>

fun bodyAccepted :: "externals \<Rightarrow> request \<Rightarrow> bool" where
  "bodyAccepted X (UpdateProject i b) = (updateProjectSchema X b = [])"
| "bodyAccepted X (UpdateTask i b) = (updateTaskSchema X b = [])"
| "bodyAccepted X (UpdateTaskStatus i status) =
     (status \<in> Some ` {''TODO'', ''IN_PROGRESS'', ''IN_REVIEW'', ''DONE''})"
| "bodyAccepted X (AddComment i content' newId) =
     (truthy content' \<and> \<not> list_all isSpace (the content'))"
| "bodyAccepted X r = True"

text \<open>The invariant of the data model on assignees: the assignee of a task, if set,
  is the owner or a member of the task's project.\<close>

definition assigneeInvariant :: "db \<Rightarrow> bool" where
  "assigneeInvariant d =
     (\<forall>t \<in> set (tasks d).
        case assigneeId t of
          None \<Rightarrow> True
        | Some a \<Rightarrow>
            (\<exists>p \<in> set (projects d). project_id p = task_projectId t \<and> ownerOrMember d a p))"

text \<open>Owners and members are existing users (the references of the data model).\<close>

definition participantsAreUsers :: "db \<Rightarrow> bool" where
  "participantsAreUsers d =
     ((\<forall>p \<in> set (projects d). \<exists>u \<in> set (users d). user_id u = ownerId p) \<and>
      (\<forall>m \<in> set (projectMembers d). \<exists>u \<in> set (users d). user_id u = member_userId m))"

text \<open>The number of membership rows of a (project, user) pair, and a sequence of
  addMember calls, each with its actor, project id, body and generated id.\<close>

definition membershipCount :: "db \<Rightarrow> ident \<Rightarrow> ident \<Rightarrow> nat" where
  "membershipCount d pid uid =
     length (filter (\<lambda>m. member_projectId m = pid \<and> member_userId m = uid) (projectMembers d))"

fun addMemberCalls :: "db \<Rightarrow> (ident \<times> ident \<times> addMemberBody \<times> ident) list \<Rightarrow> db" where
  "addMemberCalls d [] = d"
| "addMemberCalls d ((actor, i, b, newId) # calls) =
     addMemberCalls (snd (addMember d actor i b newId)) calls"

text \<open>The listing order of the specification: status ascending, then priority
  descending (URGENT before HIGH before MEDIUM before LOW), then due date ascending
  with the tasks without a due date last.\<close>

definition dueNullsLast :: "date option \<Rightarrow> date option \<Rightarrow> bool" where
  "dueNullsLast a b =
     (case b of
        None \<Rightarrow> True
      | Some y \<Rightarrow> (case a of None \<Rightarrow> False | Some x \<Rightarrow> x \<le> y))"

definition listedBefore :: "task \<Rightarrow> task \<Rightarrow> bool" where
  "listedBefore a b =
     (statusRank (task_status a) < statusRank (task_status b) \<or>
      (task_status a = task_status b \<and>
       (priorityRank (priority b) < priorityRank (priority a) \<or>
        (priority a = priority b \<and> dueNullsLast (dueDate a) (dueDate b)))))"

section \<open>Example data\<close>

text \<open>
  A small database after prisma/seed.ts: Admin owns "Website Redesign" with John and
  Jane as members, John owns "Marketing Campaign" alone.  Two users are added to the
  seed: Sam, who takes part in no project, and Kim, whose account is deactivated.
\<close>

definition adminId :: ident where "adminId = ''11111111-1111-4111-8111-111111111111''"
definition johnId :: ident where "johnId = ''22222222-2222-4222-8222-222222222222''"
definition janeId :: ident where "janeId = ''33333333-3333-4333-8333-333333333333''"
definition samId :: ident where "samId = ''44444444-4444-4444-8444-444444444444''"
definition kimId :: ident where "kimId = ''55555555-5555-4555-8555-555555555555''"
definition websiteId :: ident where "websiteId = ''aaaaaaaa-aaaa-4aaa-8aaa-aaaaaaaaaaaa''"
definition marketingId :: ident where "marketingId = ''bbbbbbbb-bbbb-4bbb-8bbb-bbbbbbbbbbbb''"
definition mockupTaskId :: ident where "mockupTaskId = ''c1c1c1c1-c1c1-4c1c-8c1c-c1c1c1c1c1c1''"
definition navTaskId :: ident where "navTaskId = ''c2c2c2c2-c2c2-4c2c-8c2c-c2c2c2c2c2c2''"
definition migrationTaskId :: ident where
  "migrationTaskId = ''c3c3c3c3-c3c3-4c3c-8c3c-c3c3c3c3c3c3''"
definition emailTaskId :: ident where "emailTaskId = ''c4c4c4c4-c4c4-4c4c-8c4c-c4c4c4c4c4c4''"
definition johnMembershipId :: ident where
  "johnMembershipId = ''d1d1d1d1-d1d1-4d1d-8d1d-d1d1d1d1d1d1''"
definition janeMembershipId :: ident where
  "janeMembershipId = ''d2d2d2d2-d2d2-4d2d-8d2d-d2d2d2d2d2d2''"
definition freshId :: ident where "freshId = ''eeeeeeee-eeee-4eee-8eee-eeeeeeeeeeee''"
definition missingId :: ident where "missingId = ''ffffffff-ffff-4fff-8fff-ffffffffffff''"

definition adminUser :: user where
  "adminUser = \<lparr>user_id = adminId, email = ''admin@example.com'', firstName = ''Admin'',
     lastName = ''User'', user_role = ADMIN, isActive = True\<rparr>"

definition johnUser :: user where
  "johnUser = \<lparr>user_id = johnId, email = ''john@example.com'', firstName = ''John'',
     lastName = ''Doe'', user_role = USER, isActive = True\<rparr>"

definition janeUser :: user where
  "janeUser = \<lparr>user_id = janeId, email = ''jane@example.com'', firstName = ''Jane'',
     lastName = ''Smith'', user_role = USER, isActive = True\<rparr>"

definition samUser :: user where
  "samUser = \<lparr>user_id = samId, email = ''sam@example.com'', firstName = ''Sam'',
     lastName = ''Lee'', user_role = USER, isActive = True\<rparr>"

definition kimUser :: user where
  "kimUser = \<lparr>user_id = kimId, email = ''kim@example.com'', firstName = ''Kim'',
     lastName = ''Park'', user_role = USER, isActive = False\<rparr>"

definition websiteProject :: project where
  "websiteProject = \<lparr>project_id = websiteId, project_name = ''Website Redesign'',
     project_description = Some ''Complete redesign of company website'',
     project_status = ACTIVE, ownerId = adminId, startDate = Some 1704067200000,
     endDate = Some 1719705600000, createdAt = 1000\<rparr>"

definition marketingProject :: project where
  "marketingProject = \<lparr>project_id = marketingId, project_name = ''Marketing Campaign'',
     project_description = Some ''Q1 2024 marketing campaign planning and execution'',
     project_status = COMPLETED, ownerId = johnId, startDate = Some 1704067200000,
     endDate = Some 1711843200000, createdAt = 2000\<rparr>"

definition johnMembership :: projectMember where
  "johnMembership = \<lparr>member_id = johnMembershipId, member_projectId = websiteId,
     member_userId = johnId, member_role = ''DEVELOPER''\<rparr>"

definition janeMembership :: projectMember where
  "janeMembership = \<lparr>member_id = janeMembershipId, member_projectId = websiteId,
     member_userId = janeId, member_role = ''DESIGNER''\<rparr>"

definition mockupTask :: task where
  "mockupTask = \<lparr>task_id = mockupTaskId, title = ''Design homepage mockup'',
     task_description = Some ''Create high-fidelity mockup for new homepage'',
     task_status = DONE, priority = HIGH, task_projectId = websiteId,
     assigneeId = Some janeId, dueDate = Some 1705276800000\<rparr>"

definition navTask :: task where
  "navTask = \<lparr>task_id = navTaskId, title = ''Develop responsive navigation'',
     task_description = Some ''Implement mobile-first navigation component'',
     task_status = IN_PROGRESS, priority = HIGH, task_projectId = websiteId,
     assigneeId = Some johnId, dueDate = Some 1705708800000\<rparr>"

definition migrationTask :: task where
  "migrationTask = \<lparr>task_id = migrationTaskId, title = ''Content migration'',
     task_description = Some ''Migrate existing content to new CMS'',
     task_status = TODO, priority = MEDIUM, task_projectId = websiteId,
     assigneeId = None, dueDate = None\<rparr>"

definition emailTask :: task where
  "emailTask = \<lparr>task_id = emailTaskId, title = ''Launch email campaign'',
     task_description = Some ''Send newsletter to subscriber list'',
     task_status = DONE, priority = MEDIUM, task_projectId = marketingId,
     assigneeId = Some johnId, dueDate = Some 1706745600000\<rparr>"

definition seedDb :: db where
  "seedDb = \<lparr>users = [adminUser, johnUser, janeUser, samUser, kimUser],
     projects = [websiteProject, marketingProject],
     projectMembers = [johnMembership, janeMembership],
     tasks = [mockupTask, navTask, migrationTask, emailTask],
     comments = []\<rparr>"

text \<open>A request body for createTask in "Website Redesign", assigned to \<open>a\<close>.\<close>

definition releaseNotesBody :: "ident \<Rightarrow> createTaskBody" where
  "releaseNotesBody a = \<lparr>ctb_title = Some ''Write release notes'', ctb_description = None,
      ctb_projectId = Some websiteId, ctb_priority = None, ctb_dueDate = None,
      ctb_assigneeId = Some a\<rparr>"

text \<open>A request body for updateTask that only sets the assignee to \<open>a\<close>.\<close>

definition reassignBody :: "ident \<Rightarrow> updateTaskBody" where
  "reassignBody a = \<lparr>utb_title = None, utb_description = None, utb_status = None,
      utb_priority = None, utb_dueDate = None, utb_assigneeId = Value a\<rparr>"

text \<open>Stand-ins for the external parameters: the shape of a UUID and of an ISO
  datetime (\<open>x\<close> a hexadecimal digit, \<open>d\<close> a decimal digit), one known date, byte-wise
  comparison of strings, and MEDIUM as the default priority.\<close>

fun hasShape :: "string \<Rightarrow> string \<Rightarrow> bool" where
  "hasShape [] s = (s = [])"
| "hasShape (p # ps) [] = False"
| "hasShape (p # ps) (c # cs) =
     ((if p = CHR ''x'' then c \<in> set ''0123456789abcdefABCDEF''
       else if p = CHR ''d'' then c \<in> set ''0123456789''
       else c = p) \<and> hasShape ps cs)"

fun bytewiseLe :: "string \<Rightarrow> string \<Rightarrow> bool" where
  "bytewiseLe [] b = True"
| "bytewiseLe (x # xs) [] = False"
| "bytewiseLe (x # xs) (y # ys) =
     ((of_char x :: nat) < of_char y \<or> (x = y \<and> bytewiseLe xs ys))"

definition seedExternals :: externals where
  "seedExternals =
     \<lparr>isUuid = hasShape ''xxxxxxxx-xxxx-xxxx-xxxx-xxxxxxxxxxxx'',
      isDatetime = hasShape ''dddd-dd-ddTdd:dd:ddZ'',
      toDate = (\<lambda>s. if s = ''2024-03-01T00:00:00Z'' then 1709251200000 else 0),
      collateLe = bytewiseLe,
      defaultPriority = MEDIUM\<rparr>"

section \<open>Auxiliary facts\<close>

lemmas seed_defs = seedDb_def adminUser_def johnUser_def janeUser_def samUser_def kimUser_def
  websiteProject_def marketingProject_def johnMembership_def janeMembership_def
  mockupTask_def navTask_def migrationTask_def emailTask_def
  adminId_def johnId_def janeId_def samId_def kimId_def websiteId_def marketingId_def
  mockupTaskId_def navTaskId_def migrationTaskId_def emailTaskId_def
  johnMembershipId_def janeMembershipId_def

lemma set_insertBy: "set (insertBy before x xs) = insert x (set xs)"
  by (induction xs) auto

lemma set_orderBy: "set (orderBy before xs) = set xs"
  unfolding orderBy_def by (induction xs) (auto simp: set_insertBy)

lemma findFirst_None_iff: "findFirst w rows = None \<longleftrightarrow> (\<forall>x \<in> set rows. \<not> w x)"
  by (auto simp: findFirst_def find_None_iff)

lemma findFirst_Some_set: "findFirst w rows = Some x \<Longrightarrow> x \<in> set rows \<and> w x"
  unfolding findFirst_def by (auto simp: find_Some_iff)

lemma findFirst_unique:
  assumes "distinct (map key rows)" "x \<in> set rows" "w x" "\<And>y. w y \<Longrightarrow> key y = key x"
  shows "findFirst w rows = Some x"
proof -
  from assms(2,3) obtain y where y: "findFirst w rows = Some y"
    by (cases "findFirst w rows") (auto simp: findFirst_None_iff)
  then have "y \<in> set rows" "w y" using findFirst_Some_set by fastforce+
  with assms have "y = x" by (metis distinct_map inj_onD)
  with y show ?thesis by simp
qed

section \<open>Project visibility\<close>

text \<open>
  Claim C2.  A stored project \<open>P\<close> is in the unfiltered project listing of an actor
  exactly when the actor owns \<open>P\<close> or a membership row links the actor to \<open>P\<close>, and
  the same condition decides whether getProject answers with \<open>P\<close> (it answers
  "Project not found" otherwise).  Project ids are unique in the table.
\<close>

theorem project_visibility:
  assumes "P \<in> set (projects d)" and "distinct (map project_id (projects d))"
    and "\<not> truthy status" and "\<not> truthy search"
  shows "(\<exists>rows. fst (getProjects d u status search) = ok 200 None (ProjectList rows) \<and>
            (P \<in> set rows \<longleftrightarrow>
               ownerId P = u \<or>
               (\<exists>m \<in> set (projectMembers d).
                  member_projectId m = project_id P \<and> member_userId m = u))) \<and>
         (fst (getProject d u (project_id P)) = ok 200 None (ProjectData P) \<longleftrightarrow>
            ownerId P = u \<or>
            (\<exists>m \<in> set (projectMembers d).
               member_projectId m = project_id P \<and> member_userId m = u)) \<and>
         (fst (getProject d u (project_id P)) = ok 200 None (ProjectData P) \<or>
          fst (getProject d u (project_id P)) = fail 404 ''Project not found'')"
proof -
  let ?vis = "ownerId P = u \<or>
      (\<exists>m \<in> set (projectMembers d). member_projectId m = project_id P \<and> member_userId m = u)"
  have vis: "ownerOrMember d u P \<longleftrightarrow> ?vis" by (simp add: ownerOrMember_def)
  have list: "fst (getProjects d u status search) =
      ok 200 None (ProjectList (orderBy (\<lambda>p q. createdAt q \<le> createdAt p)
         (filter (ownerOrMember d u) (projects d))))"
    using assms(3,4) by (simp add: getProjects_def Let_def)
  have g1: "fst (getProject d u (project_id P)) = ok 200 None (ProjectData P)" if "?vis"
  proof -
    have "findFirst (\<lambda>p. project_id p = project_id P \<and> ownerOrMember d u p) (projects d) = Some P"
      using assms(1,2) that vis by (intro findFirst_unique[where key = project_id]) auto
    then show ?thesis by (simp add: getProject_def)
  qed
  have g2: "fst (getProject d u (project_id P)) = fail 404 ''Project not found''" if "\<not> ?vis"
  proof -
    have "\<forall>p \<in> set (projects d). \<not> (project_id p = project_id P \<and> ownerOrMember d u p)"
    proof
      fix p assume p: "p \<in> set (projects d)"
      show "\<not> (project_id p = project_id P \<and> ownerOrMember d u p)"
      proof
        assume a: "project_id p = project_id P \<and> ownerOrMember d u p"
        with p assms(1,2) have "p = P" by (metis distinct_map inj_onD)
        with a that vis show False by simp
      qed
    qed
    then have "findFirst (\<lambda>p. project_id p = project_id P \<and> ownerOrMember d u p) (projects d) = None"
      by (simp add: findFirst_None_iff)
    then show ?thesis by (simp add: getProject_def)
  qed
  have ne: "ok 200 None (ProjectData P) \<noteq> fail 404 ''Project not found''"
    by (simp add: ok_def fail_def)
  show ?thesis
    using list g1 g2 ne assms(1) vis by (auto simp: set_orderBy)
qed

theorem project_visibility_witness:
  "websiteProject \<in> set (projects seedDb) \<and> distinct (map project_id (projects seedDb)) \<and>
   \<not> truthy None \<and>
   (\<exists>rows. fst (getProjects seedDb janeId None None) = ok 200 None (ProjectList rows) \<and>
       websiteProject \<in> set rows) \<and>
   fst (getProject seedDb janeId websiteId) = ok 200 None (ProjectData websiteProject) \<and>
   fst (getProject seedDb samId websiteId) = fail 404 ''Project not found''"
proof -
  have a: "websiteProject \<in> set (projects seedDb)" by (simp add: seed_defs)
  have b: "distinct (map project_id (projects seedDb))" by (simp add: seed_defs)
  have c: "\<not> truthy None" by (simp add: truthy_def)
  have m: "\<exists>m \<in> set (projectMembers seedDb).
     member_projectId m = project_id websiteProject \<and> member_userId m = janeId"
    by (simp add: seed_defs)
  have n: "\<not> (ownerId websiteProject = samId \<or> (\<exists>m \<in> set (projectMembers seedDb).
     member_projectId m = project_id websiteProject \<and> member_userId m = samId))"
    by (simp add: seed_defs)
  have i: "project_id websiteProject = websiteId" by (simp add: websiteProject_def)
  show ?thesis
    using project_visibility[OF a b c c, of janeId] project_visibility[OF a b c c, of samId]
      a b c m n i by auto
qed

section \<open>Access predicates of the code and of the specification\<close>

lemma canSeeProject_iff:
  "canSeeProject d u i \<longleftrightarrow> (\<exists>p \<in> set (projects d). project_id p = i \<and> ownerOrMember d u p)"
  unfolding canSeeProject_def ownerOrMember_def by auto

lemma taskProjectVisible_iff: "taskProjectVisible d u t \<longleftrightarrow> canSeeProject d u (task_projectId t)"
  unfolding taskProjectVisible_def canSeeProject_iff by simp

lemma canSeeTask_iff:
  "canSeeTask d u i \<longleftrightarrow> (\<exists>t \<in> set (tasks d). task_id t = i \<and> taskProjectVisible d u t)"
  unfolding canSeeTask_def taskProjectVisible_iff by simp

lemma map_update_unique:
  assumes "distinct (map key rows)" "x \<in> set rows"
  shows "map (\<lambda>r. if key r = key x then f r else r) rows = map (\<lambda>r. if r = x then f x else r) rows"
proof (rule map_cong[OF refl])
  fix r assume "r \<in> set rows"
  with assms have "key r = key x \<longleftrightarrow> r = x" by (metis distinct_map inj_onD)
  then show "(if key r = key x then f r else r) = (if r = x then f x else r)" by auto
qed

section \<open>Users\<close>

text \<open>
  Claim C10.  getUser answers with the stored user whenever a user with the given id
  exists, whoever the actor is and whether or not the user is active, and answers
  "User not found" exactly when no user has that id; every row getUsers returns is
  an active user.  User ids are unique in the table.
\<close>

theorem user_read_unrestricted:
  assumes "U \<in> set (users d)" and "distinct (map user_id (users d))"
  shows "getUser d actor (user_id U) = (ok 200 None (UserData U), d) \<and>
         (fst (getUser d actor i) = fail 404 ''User not found'' \<longleftrightarrow>
            \<not> (\<exists>u \<in> set (users d). user_id u = i)) \<and>
         (fst (getUsers X d actor search role) = errorHandler PrismaClientValidationError \<or>
          (\<exists>rows. fst (getUsers X d actor search role) = ok 200 None (UserList rows) \<and>
             (\<forall>u \<in> set rows. u \<in> set (users d) \<and> isActive u)))"
proof -
  have "findFirst (\<lambda>u. user_id u = user_id U) (users d) = Some U"
    using assms by (intro findFirst_unique[where key = user_id]) auto
  then have a: "getUser d actor (user_id U) = (ok 200 None (UserData U), d)"
    by (simp add: getUser_def)
  have b: "fst (getUser d actor i) = fail 404 ''User not found'' \<longleftrightarrow>
            \<not> (\<exists>u \<in> set (users d). user_id u = i)"
  proof (cases "findFirst (\<lambda>u. user_id u = i) (users d)")
    case None
    then have "\<forall>x \<in> set (users d). user_id x \<noteq> i" by (simp add: findFirst_None_iff)
    with None show ?thesis by (simp add: getUser_def)
  next
    case (Some x)
    then have "x \<in> set (users d) \<and> user_id x = i" by (rule findFirst_Some_set)
    with Some show ?thesis by (auto simp: getUser_def ok_def fail_def)
  qed
  have c: "fst (getUsers X d actor search role) = errorHandler PrismaClientValidationError \<or>
          (\<exists>rows. fst (getUsers X d actor search role) = ok 200 None (UserList rows) \<and>
             (\<forall>u \<in> set rows. u \<in> set (users d) \<and> isActive u))"
    by (auto simp: getUsers_def set_orderBy)
  from a b c show ?thesis by blast
qed

theorem user_read_unrestricted_witness:
  "kimUser \<in> set (users seedDb) \<and> distinct (map user_id (users seedDb)) \<and>
   \<not> isActive kimUser \<and>
   getUser seedDb samId kimId = (ok 200 None (UserData kimUser), seedDb) \<and>
   fst (getUser seedDb samId missingId) = fail 404 ''User not found'' \<and>
   fst (getUsers seedExternals seedDb samId None None) =
     ok 200 None (UserList [adminUser, janeUser, johnUser, samUser])"
proof -
  have a: "kimUser \<in> set (users seedDb)" by (simp add: seed_defs)
  have b: "distinct (map user_id (users seedDb))" by (simp add: seed_defs)
  have c: "\<not> (\<exists>u \<in> set (users seedDb). user_id u = missingId)" by (simp add: seed_defs missingId_def)
  have i: "user_id kimUser = kimId" "\<not> isActive kimUser" by (simp_all add: kimUser_def)
  have l: "fst (getUsers seedExternals seedDb samId None None) =
     ok 200 None (UserList [adminUser, janeUser, johnUser, samUser])"
    by (simp add: getUsers_def truthy_def orderBy_def seedExternals_def seed_defs)
  show ?thesis
    using user_read_unrestricted[OF a b, of samId missingId] a b c i l by simp
qed

section \<open>Task status\<close>

text \<open>
  Claim C8.  For a task \<open>T\<close> whose project the actor can see, updateTaskStatus
  accepts each of TODO, IN_PROGRESS, IN_REVIEW and DONE whatever the current status of
  \<open>T\<close> is, and stores it in \<open>T\<close> alone; any other status value is answered with
  "Invalid status" (400) and the database is unchanged.  Task ids are unique in the
  table.
\<close>

theorem task_status_unrestricted:
  assumes "T \<in> set (tasks d)" and "distinct (map task_id (tasks d))"
    and "canSeeProject d u (task_projectId T)"
  shows "(s \<in> {''TODO'', ''IN_PROGRESS'', ''IN_REVIEW'', ''DONE''} \<longrightarrow>
            (\<exists>st. parseTaskStatus s = Some st \<and>
               updateTaskStatus d u (task_id T) (Some s) =
                 (ok 200 (Some ''Task status updated successfully'')
                    (TaskData (T\<lparr>task_status := st\<rparr>)),
                  d\<lparr>tasks := map (\<lambda>t. if t = T then T\<lparr>task_status := st\<rparr> else t) (tasks d)\<rparr>))) \<and>
         (status \<notin> Some ` {''TODO'', ''IN_PROGRESS'', ''IN_REVIEW'', ''DONE''} \<longrightarrow>
            updateTaskStatus d u (task_id T) status = (fail 400 ''Invalid status'', d))"
proof -
  have ff: "findFirst (\<lambda>t. task_id t = task_id T \<and> taskProjectVisible d u t) (tasks d) = Some T"
    using assms by (intro findFirst_unique[where key = task_id]) (auto simp: taskProjectVisible_iff)
  have upd: "map (\<lambda>t. if task_id t = task_id T then t\<lparr>task_status := st\<rparr> else t) (tasks d) =
      map (\<lambda>t. if t = T then T\<lparr>task_status := st\<rparr> else t) (tasks d)" for st
    using map_update_unique[OF assms(2,1), of "\<lambda>t. t\<lparr>task_status := st\<rparr>"] by simp
  have good: "\<exists>st. parseTaskStatus s = Some st \<and>
               updateTaskStatus d u (task_id T) (Some s) =
                 (ok 200 (Some ''Task status updated successfully'')
                    (TaskData (T\<lparr>task_status := st\<rparr>)),
                  d\<lparr>tasks := map (\<lambda>t. if t = T then T\<lparr>task_status := st\<rparr> else t) (tasks d)\<rparr>)"
    if "s \<in> {''TODO'', ''IN_PROGRESS'', ''IN_REVIEW'', ''DONE''}"
  proof -
    from that obtain st where st: "parseTaskStatus s = Some st"
      by (auto simp: parseTaskStatus_def)
    from that have inc: "s \<in> set [''TODO'', ''IN_PROGRESS'', ''IN_REVIEW'', ''DONE'']" by simp
    have "updateTaskStatus d u (task_id T) (Some s) =
                 (ok 200 (Some ''Task status updated successfully'')
                    (TaskData (T\<lparr>task_status := st\<rparr>)),
                  d\<lparr>tasks := map (\<lambda>t. if t = T then T\<lparr>task_status := st\<rparr> else t) (tasks d)\<rparr>)"
      unfolding updateTaskStatus_def using inc st ff upd[of st]
      by (simp del: set_simps)
    with st show ?thesis by blast
  qed
  have bad: "updateTaskStatus d u (task_id T) status = (fail 400 ''Invalid status'', d)"
    if "status \<notin> Some ` {''TODO'', ''IN_PROGRESS'', ''IN_REVIEW'', ''DONE''}"
    using that unfolding updateTaskStatus_def by (cases status) auto
  from good bad show ?thesis by blast
qed

theorem task_status_unrestricted_witness:
  "migrationTask \<in> set (tasks seedDb) \<and> distinct (map task_id (tasks seedDb)) \<and>
   canSeeProject seedDb janeId (task_projectId migrationTask) \<and>
   task_status migrationTask = TODO \<and>
   fst (updateTaskStatus seedDb janeId migrationTaskId (Some ''DONE'')) =
     ok 200 (Some ''Task status updated successfully'')
       (TaskData (migrationTask\<lparr>task_status := DONE\<rparr>)) \<and>
   updateTaskStatus seedDb janeId migrationTaskId (Some ''CANCELLED'') =
     (fail 400 ''Invalid status'', seedDb)"
proof -
  have a: "migrationTask \<in> set (tasks seedDb)" by (simp add: seed_defs)
  have b: "distinct (map task_id (tasks seedDb))" by (simp add: seed_defs)
  have c: "canSeeProject seedDb janeId (task_projectId migrationTask)"
    by (simp add: canSeeProject_def seed_defs)
  have i: "task_id migrationTask = migrationTaskId" "task_status migrationTask = TODO"
    by (simp_all add: migrationTask_def)
  have g: "''DONE'' \<in> {''TODO'', ''IN_PROGRESS'', ''IN_REVIEW'', ''DONE''}" by simp
  have n: "Some ''CANCELLED'' \<notin> Some ` {''TODO'', ''IN_PROGRESS'', ''IN_REVIEW'', ''DONE''}"
    by simp
  have p: "parseTaskStatus ''DONE'' = Some DONE" by (simp add: parseTaskStatus_def)
  note T = task_status_unrestricted[OF a b c, of "''DONE''" "Some ''CANCELLED''", unfolded i]
  from T g p have f: "fst (updateTaskStatus seedDb janeId migrationTaskId (Some ''DONE'')) =
     ok 200 (Some ''Task status updated successfully'')
       (TaskData (migrationTask\<lparr>task_status := DONE\<rparr>))"
    by auto
  from T n have r: "updateTaskStatus seedDb janeId migrationTaskId (Some ''CANCELLED'') =
     (fail 400 ''Invalid status'', seedDb)"
    by blast
  show ?thesis using a b c i(2) f r by blast
qed

section \<open>Memberships\<close>

lemma membershipCount_0_iff:
  "membershipCount d pid uid = 0 \<longleftrightarrow>
     (\<forall>m \<in> set (projectMembers d). \<not> (member_projectId m = pid \<and> member_userId m = uid))"
  by (auto simp: membershipCount_def filter_empty_conv)

lemma createMemberRow_Inr:
  "createMemberRow d m = Inr d' \<Longrightarrow>
     d' = d\<lparr>projectMembers := projectMembers d @ [m]\<rparr> \<and>
     membershipCount d (member_projectId m) (member_userId m) = 0"
  unfolding createMemberRow_def membershipCount_0_iff by (auto split: if_splits)

lemma addMember_cases:
  "snd (addMember d actor i b newId) = d \<or>
   (\<exists>m. snd (addMember d actor i b newId) = d\<lparr>projectMembers := projectMembers d @ [m]\<rparr> \<and>
        membershipCount d (member_projectId m) (member_userId m) = 0)"
  unfolding addMember_def
  by (auto simp: Let_def split: option.splits sum.splits dest: createMemberRow_Inr)

lemma addMember_count_le:
  assumes "membershipCount d pid uid \<le> 1"
  shows "membershipCount (snd (addMember d actor i b newId)) pid uid \<le> 1"
proof -
  from addMember_cases[of d actor i b newId] show ?thesis
  proof
    assume "snd (addMember d actor i b newId) = d"
    with assms show ?thesis by simp
  next
    assume "\<exists>m. snd (addMember d actor i b newId) = d\<lparr>projectMembers := projectMembers d @ [m]\<rparr> \<and>
        membershipCount d (member_projectId m) (member_userId m) = 0"
    then obtain m where m: "snd (addMember d actor i b newId) = d\<lparr>projectMembers := projectMembers d @ [m]\<rparr>"
      and z: "membershipCount d (member_projectId m) (member_userId m) = 0" by blast
    show ?thesis
    proof (cases "member_projectId m = pid \<and> member_userId m = uid")
      case True
      with z have "membershipCount d pid uid = 0" by simp
      with True m show ?thesis by (simp add: membershipCount_def)
    next
      case False
      with m assms show ?thesis by (auto simp: membershipCount_def)
    qed
  qed
qed

lemma addMemberCalls_count_le:
  "membershipCount d pid uid \<le> 1 \<Longrightarrow> membershipCount (addMemberCalls d calls) pid uid \<le> 1"
proof (induction calls arbitrary: d)
  case Nil
  then show ?case by simp
next
  case (Cons c calls)
  obtain actor i b newId where c: "c = (actor, i, b, newId)" by (cases c) auto
  from Cons.prems have "membershipCount (snd (addMember d actor i b newId)) pid uid \<le> 1"
    by (rule addMember_count_le)
  then show ?case using Cons.IH c by simp
qed

text \<open>
  Claim C7.  For a project \<open>P\<close> owned by the actor and a user \<open>V\<close>: when no
  membership row for (\<open>P\<close>, \<open>V\<close>) exists, addMember succeeds (201) and appends exactly
  one such row, whose id is the fresh id the database generates; when one exists,
  addMember answers "User is already a member of this project" (400) and changes
  nothing; and no sequence of addMember calls, by whatever actors and with whatever
  arguments, raises the number of rows of a pair above one.
\<close>

theorem add_member_once:
  assumes "P \<in> set (projects d)" and "ownerId P = actor"
  shows "(membershipCount d (project_id P) V = 0 \<and> (\<exists>u \<in> set (users d). user_id u = V) \<and>
          newId \<notin> member_id ` set (projectMembers d) \<longrightarrow>
            addMember d actor (project_id P) \<lparr>amb_userId = Some V, amb_role = role\<rparr> newId =
              (ok 201 (Some ''Member added successfully'')
                 (MemberData \<lparr>member_id = newId, member_projectId = project_id P,
                    member_userId = V,
                    member_role = (if truthy role then the role else ''MEMBER'')\<rparr>),
               d\<lparr>projectMembers := projectMembers d @
                    [\<lparr>member_id = newId, member_projectId = project_id P, member_userId = V,
                      member_role = (if truthy role then the role else ''MEMBER'')\<rparr>]\<rparr>) \<and>
            membershipCount
              (snd (addMember d actor (project_id P) \<lparr>amb_userId = Some V, amb_role = role\<rparr> newId))
              (project_id P) V = 1) \<and>
         (0 < membershipCount d (project_id P) V \<longrightarrow>
            addMember d actor (project_id P) \<lparr>amb_userId = Some V, amb_role = role\<rparr> newId =
              (fail 400 ''User is already a member of this project'', d)) \<and>
         (membershipCount d pid uid \<le> 1 \<longrightarrow>
            membershipCount (addMemberCalls d calls) pid uid \<le> 1)"
proof -
  let ?b = "\<lparr>amb_userId = Some V, amb_role = role\<rparr>"
  let ?row = "\<lparr>member_id = newId, member_projectId = project_id P, member_userId = V,
                member_role = (if truthy role then the role else ''MEMBER'')\<rparr>"
  obtain p where p: "findFirst (\<lambda>p. project_id p = project_id P \<and> ownerId p = actor) (projects d) = Some p"
    using assms by (cases "findFirst (\<lambda>p. project_id p = project_id P \<and> ownerId p = actor) (projects d)")
      (auto simp: findFirst_None_iff)
  have new: "addMember d actor (project_id P) ?b newId =
      (ok 201 (Some ''Member added successfully'') (MemberData ?row),
       d\<lparr>projectMembers := projectMembers d @ [?row]\<rparr>) \<and>
      membershipCount (snd (addMember d actor (project_id P) ?b newId)) (project_id P) V = 1"
    if z: "membershipCount d (project_id P) V = 0" and u: "\<exists>u \<in> set (users d). user_id u = V"
      and n: "newId \<notin> member_id ` set (projectMembers d)"
  proof -
    from z have none: "\<forall>m \<in> set (projectMembers d). \<not> (member_projectId m = project_id P \<and> member_userId m = V)"
      by (simp add: membershipCount_0_iff)
    then have ff: "findFirst (\<lambda>m. member_projectId m = project_id P \<and> member_userId m = V) (projectMembers d) = None"
      by (simp add: findFirst_None_iff)
    have cr: "createMemberRow d ?row = Inr (d\<lparr>projectMembers := projectMembers d @ [?row]\<rparr>)"
      unfolding createMemberRow_def using none u n assms(1) by auto
    have r: "addMember d actor (project_id P) ?b newId =
      (ok 201 (Some ''Member added successfully'') (MemberData ?row),
       d\<lparr>projectMembers := projectMembers d @ [?row]\<rparr>)"
      unfolding addMember_def using p ff cr by (cases "truthy role") (simp_all add: Let_def)
    have "membershipCount (d\<lparr>projectMembers := projectMembers d @ [?row]\<rparr>) (project_id P) V = 1"
      using z by (simp add: membershipCount_def)
    with r show ?thesis by simp
  qed
  have dup: "addMember d actor (project_id P) ?b newId =
              (fail 400 ''User is already a member of this project'', d)"
    if "0 < membershipCount d (project_id P) V"
  proof -
    from that have "\<not> (\<forall>m \<in> set (projectMembers d). \<not> (member_projectId m = project_id P \<and> member_userId m = V))"
      using membershipCount_0_iff[of d "project_id P" V] by simp
    then obtain m where "findFirst (\<lambda>m. member_projectId m = project_id P \<and> member_userId m = V) (projectMembers d) = Some m"
      by (cases "findFirst (\<lambda>m. member_projectId m = project_id P \<and> member_userId m = V) (projectMembers d)")
        (auto simp: findFirst_None_iff)
    then show ?thesis unfolding addMember_def using p by simp
  qed
  from new dup addMemberCalls_count_le[of d pid uid calls] show ?thesis by blast
qed

theorem add_member_once_witness:
  "marketingProject \<in> set (projects seedDb) \<and> ownerId marketingProject = johnId \<and>
   membershipCount seedDb marketingId samId = 0 \<and>
   fst (addMember seedDb johnId marketingId \<lparr>amb_userId = Some samId, amb_role = None\<rparr> freshId) =
     ok 201 (Some ''Member added successfully'')
       (MemberData \<lparr>member_id = freshId, member_projectId = marketingId, member_userId = samId,
          member_role = ''MEMBER''\<rparr>) \<and>
   membershipCount
     (snd (addMember seedDb johnId marketingId \<lparr>amb_userId = Some samId, amb_role = None\<rparr> freshId))
     marketingId samId = 1 \<and>
   membershipCount
     (addMemberCalls seedDb
        [(johnId, marketingId, \<lparr>amb_userId = Some samId, amb_role = None\<rparr>, freshId),
         (johnId, marketingId, \<lparr>amb_userId = Some samId, amb_role = None\<rparr>, missingId)])
     marketingId samId \<le> 1"
proof -
  have a: "marketingProject \<in> set (projects seedDb)" by (simp add: seed_defs)
  have b: "ownerId marketingProject = johnId" by (simp add: seed_defs)
  have i: "project_id marketingProject = marketingId" by (simp add: seed_defs)
  have z: "membershipCount seedDb marketingId samId = 0"
    by (simp add: membershipCount_def seed_defs)
  have u: "\<exists>u \<in> set (users seedDb). user_id u = samId" by (simp add: seed_defs)
  have n: "freshId \<notin> member_id ` set (projectMembers seedDb)" by (simp add: seed_defs freshId_def)
  have t: "\<not> truthy None" by (simp add: truthy_def)
  have le: "membershipCount seedDb marketingId samId \<le> 1" using z by simp
  note T = add_member_once[OF a b, of samId freshId None marketingId samId
        "[(johnId, marketingId, \<lparr>amb_userId = Some samId, amb_role = None\<rparr>, freshId),
         (johnId, marketingId, \<lparr>amb_userId = Some samId, amb_role = None\<rparr>, missingId)]",
        unfolded i]
  note s1 = T[THEN conjunct1, rule_format, OF conjI[OF z conjI[OF u n]]]
  note s3 = T[THEN conjunct2, THEN conjunct2, rule_format, OF le]
  have f: "fst (addMember seedDb johnId marketingId \<lparr>amb_userId = Some samId, amb_role = None\<rparr> freshId) =
     ok 201 (Some ''Member added successfully'')
       (MemberData \<lparr>member_id = freshId, member_projectId = marketingId, member_userId = samId,
          member_role = ''MEMBER''\<rparr>)"
    using s1[THEN conjunct1] t by simp
  show ?thesis using a b z f s1[THEN conjunct2] s3 by blast
qed

section \<open>Uniform "not found"\<close>

lemma no_target_no_access: "\<not> targetExists d r \<Longrightarrow> \<not> accessGranted d u r"
  by (cases r) (auto simp: canSeeProject_def isOwner_def canSeeTask_def)

lemma project_lookup_denied:
  "\<not> canSeeProject d u i \<Longrightarrow>
     findFirst (\<lambda>p. project_id p = i \<and> ownerOrMember d u p) (projects d) = None"
  by (simp add: canSeeProject_iff findFirst_None_iff)

lemma owner_lookup_denied:
  "\<not> isOwner d u i \<Longrightarrow> findFirst (\<lambda>p. project_id p = i \<and> ownerId p = u) (projects d) = None"
  by (simp add: isOwner_def findFirst_None_iff)

lemma task_lookup_denied:
  "\<not> canSeeTask d u i \<Longrightarrow>
     findFirst (\<lambda>t. task_id t = i \<and> taskProjectVisible d u t) (tasks d) = None"
  by (simp add: canSeeTask_iff findFirst_None_iff)

lemmas lookup_denied = project_lookup_denied owner_lookup_denied task_lookup_denied

lemma route_denied_accepted:
  "\<not> accessGranted d u r \<Longrightarrow> bodyAccepted X r \<Longrightarrow> route X d u r = (notFoundOf r, d)"
proof (cases r)
  case (UpdateTaskStatus i status)
  assume "\<not> accessGranted d u r" "bodyAccepted X r"
  with UpdateTaskStatus show ?thesis
    by (auto simp: updateTaskStatus_def lookup_denied)
qed (auto simp: getProject_def updateProject_def deleteProject_def getTask_def updateTask_def
      deleteTask_def addComment_def lookup_denied)

lemma route_rejected:
  "\<not> bodyAccepted X r \<Longrightarrow>
     snd (route X d u r) = d \<and> res_status (fst (route X d u r)) = 400 \<and>
     fst (route X d u r) = fst (route X d' u r)"
proof (cases r)
  case (UpdateTaskStatus i status)
  assume "\<not> bodyAccepted X r"
  with UpdateTaskStatus show ?thesis
    by (cases status) (auto simp: updateTaskStatus_def fail_def)
qed (auto simp: updateProject_def updateTask_def addComment_def zodError_def fail_def)

text \<open>
  Claim C3.  For each single-resource route (get, update, delete of a project or a
  task, status change, new comment) and each actor: the response when the addressed
  resource does not exist equals the response when it exists and the actor fails the
  access rule of the route, and in neither case the database changes.  With a
  well-formed body that response is the route's 404 "not found"; with a malformed one
  it is the 400 rejection, which is computed before the lookup.
\<close>

theorem not_found_uniform:
  assumes "\<not> targetExists d1 r" and "targetExists d2 r" and "\<not> accessGranted d2 u r"
  shows "fst (route X d1 u r) = fst (route X d2 u r) \<and>
         snd (route X d1 u r) = d1 \<and> snd (route X d2 u r) = d2 \<and>
         (bodyAccepted X r \<longrightarrow> fst (route X d2 u r) = notFoundOf r) \<and>
         (\<not> bodyAccepted X r \<longrightarrow> res_status (fst (route X d2 u r)) = 400)"
proof (cases "bodyAccepted X r")
  case True
  from assms(1) have "\<not> accessGranted d1 u r" by (rule no_target_no_access)
  with True have "route X d1 u r = (notFoundOf r, d1)" by (intro route_denied_accepted)
  moreover from assms(3) True have "route X d2 u r = (notFoundOf r, d2)"
    by (intro route_denied_accepted)
  ultimately show ?thesis using True by simp
next
  case False
  from route_rejected[OF False, of d1 u d2] route_rejected[OF False, of d2 u d1] False
  show ?thesis by simp
qed

theorem not_found_uniform_witness:
  "\<not> targetExists (seedDb\<lparr>tasks := []\<rparr>) (GetTask navTaskId) \<and>
   targetExists seedDb (GetTask navTaskId) \<and>
   \<not> accessGranted seedDb samId (GetTask navTaskId) \<and>
   fst (route seedExternals (seedDb\<lparr>tasks := []\<rparr>) samId (GetTask navTaskId)) =
     fail 404 ''Task not found'' \<and>
   fst (route seedExternals seedDb samId (GetTask navTaskId)) = fail 404 ''Task not found'' \<and>
   \<not> targetExists (seedDb\<lparr>projects := []\<rparr>) (DeleteProject websiteId) \<and>
   targetExists seedDb (DeleteProject websiteId) \<and>
   \<not> accessGranted seedDb janeId (DeleteProject websiteId) \<and>
   route seedExternals seedDb janeId (DeleteProject websiteId) =
     (fail 404 ''Project not found or you do not have permission to delete it'', seedDb) \<and>
   fst (route seedExternals (seedDb\<lparr>projects := []\<rparr>) janeId (DeleteProject websiteId)) =
     fail 404 ''Project not found or you do not have permission to delete it''"
proof -
  have a1: "\<not> targetExists (seedDb\<lparr>tasks := []\<rparr>) (GetTask navTaskId)" by simp
  have a2: "targetExists seedDb (GetTask navTaskId)" by (simp add: seed_defs)
  have a3: "\<not> accessGranted seedDb samId (GetTask navTaskId)"
    by (simp add: canSeeTask_def canSeeProject_def seed_defs)
  have b1: "\<not> targetExists (seedDb\<lparr>projects := []\<rparr>) (DeleteProject websiteId)" by simp
  have b2: "targetExists seedDb (DeleteProject websiteId)" by (simp add: seed_defs)
  have b3: "\<not> accessGranted seedDb janeId (DeleteProject websiteId)"
    by (simp add: isOwner_def seed_defs)
  note A = not_found_uniform[OF a1 a2 a3, of seedExternals]
  note B = not_found_uniform[OF b1 b2 b3, of seedExternals]
  have acc: "bodyAccepted seedExternals (GetTask navTaskId)"
    "bodyAccepted seedExternals (DeleteProject websiteId)" by simp_all
  from A acc(1) have A2: "fst (route seedExternals seedDb samId (GetTask navTaskId)) =
      fail 404 ''Task not found''" by simp
  with A have A1: "fst (route seedExternals (seedDb\<lparr>tasks := []\<rparr>) samId (GetTask navTaskId)) =
      fail 404 ''Task not found''" by simp
  from B acc(2) have B2: "fst (route seedExternals seedDb janeId (DeleteProject websiteId)) =
      fail 404 ''Project not found or you do not have permission to delete it''" by simp
  with B have B1: "fst (route seedExternals (seedDb\<lparr>projects := []\<rparr>) janeId (DeleteProject websiteId)) =
      fail 404 ''Project not found or you do not have permission to delete it''" by simp
  from B B2 have B3: "route seedExternals seedDb janeId (DeleteProject websiteId) =
     (fail 404 ''Project not found or you do not have permission to delete it'', seedDb)"
    by (simp add: prod_eq_iff)
  show ?thesis using a1 a2 a3 A1 A2 b1 b2 b3 B3 B1 by blast
qed

section \<open>Task creation and the assignee\<close>

lemma findFirst_unique_None:
  assumes "distinct (map key rows)" "x \<in> set rows" "\<not> w x"
  shows "findFirst (\<lambda>y. key y = key x \<and> w y) rows = None"
proof -
  have "\<forall>y \<in> set rows. \<not> (key y = key x \<and> w y)"
  proof
    fix y assume y: "y \<in> set rows"
    show "\<not> (key y = key x \<and> w y)"
    proof
      assume k: "key y = key x \<and> w y"
      with y assms(1,2) have "y = x" by (metis distinct_map inj_onD)
      with k assms(3) show False by simp
    qed
  qed
  then show ?thesis by (simp add: findFirst_None_iff)
qed

lemma ownerOrMember_is_user:
  assumes "participantsAreUsers d" "p \<in> set (projects d)" "ownerOrMember d a p"
  shows "\<exists>u \<in> set (users d). user_id u = a"
  using assms unfolding participantsAreUsers_def ownerOrMember_def by blast

text \<open>
  Claim C5.  For a project \<open>P\<close> the actor can see and a candidate assignee \<open>A\<close>:
  createTask with \<open>assigneeId = A\<close> succeeds exactly when \<open>A\<close> is the owner or a member
  of \<open>P\<close>, and then appends the task; otherwise it answers "Assignee does not have
  access to this project" with status 400 (not 404) and stores nothing.  The body
  passes the schema, \<open>A\<close> is not the empty string, the generated id is fresh, project
  ids are unique, and owners and members are existing users.
\<close>

theorem create_task_assignee:
  assumes "P \<in> set (projects d)" and "distinct (map project_id (projects d))"
    and "participantsAreUsers d" and "ownerOrMember d actor P"
    and "createTaskSchema X b = []" and "ctb_projectId b = Some (project_id P)"
    and "ctb_assigneeId b = Some A" and "A \<noteq> []"
    and "newId \<notin> task_id ` set (tasks d)"
  shows "(res_success (fst (createTask X d actor b newId)) \<longleftrightarrow> ownerOrMember d A P) \<and>
         (ownerOrMember d A P \<longrightarrow>
            createTask X d actor b newId =
              (ok 201 (Some ''Task created successfully'') (TaskData (newTask X b newId)),
               d\<lparr>tasks := tasks d @ [newTask X b newId]\<rparr>) \<and>
            task_projectId (newTask X b newId) = project_id P \<and>
            assigneeId (newTask X b newId) = Some A) \<and>
         (\<not> ownerOrMember d A P \<longrightarrow>
            createTask X d actor b newId =
              (fail 400 ''Assignee does not have access to this project'', d))"
proof -
  have actor: "findFirst (\<lambda>p. project_id p = project_id P \<and> ownerOrMember d actor p) (projects d)
      = Some P"
    using assms(1,2,4) by (intro findFirst_unique[where key = project_id]) auto
  have tr: "truthy (Some A)" using assms(8) by (simp add: truthy_def)
  have row: "task_projectId (newTask X b newId) = project_id P"
    "assigneeId (newTask X b newId) = Some A" "task_id (newTask X b newId) = newId"
    using assms(6,7) by (simp_all add: newTask_def)
  have yes: "createTask X d actor b newId =
              (ok 201 (Some ''Task created successfully'') (TaskData (newTask X b newId)),
               d\<lparr>tasks := tasks d @ [newTask X b newId]\<rparr>)" if a: "ownerOrMember d A P"
  proof -
    have "findFirst (\<lambda>p. project_id p = project_id P \<and> ownerOrMember d A p) (projects d) = Some P"
      using assms(1,2) a by (intro findFirst_unique[where key = project_id]) auto
    moreover have "\<exists>u \<in> set (users d). user_id u = A"
      using assms(3,1) a by (rule ownerOrMember_is_user)
    then have "createTaskRow d (newTask X b newId) = Inr (d\<lparr>tasks := tasks d @ [newTask X b newId]\<rparr>)"
      unfolding createTaskRow_def using row assms(1,9) by auto
    ultimately show ?thesis
      unfolding createTask_def using assms(5,6,7) actor tr by simp
  qed
  have no: "createTask X d actor b newId =
              (fail 400 ''Assignee does not have access to this project'', d)"
    if a: "\<not> ownerOrMember d A P"
  proof -
    have "findFirst (\<lambda>p. project_id p = project_id P \<and> ownerOrMember d A p) (projects d) = None"
      using assms(2,1) a by (rule findFirst_unique_None)
    then show ?thesis
      unfolding createTask_def using assms(5,6,7) actor tr by simp
  qed
  have "res_success (fst (createTask X d actor b newId)) \<longleftrightarrow> ownerOrMember d A P"
    using yes no by (cases "ownerOrMember d A P") (simp_all add: ok_def fail_def)
  with yes no row show ?thesis by blast
qed

theorem create_task_assignee_witness:
  "websiteProject \<in> set (projects seedDb) \<and> distinct (map project_id (projects seedDb)) \<and>
   participantsAreUsers seedDb \<and> ownerOrMember seedDb johnId websiteProject \<and>
   createTaskSchema seedExternals (releaseNotesBody janeId) = [] \<and>
   createTaskSchema seedExternals (releaseNotesBody samId) = [] \<and>
   freshId \<notin> task_id ` set (tasks seedDb) \<and>
   ownerOrMember seedDb janeId websiteProject \<and>
   res_status (fst (createTask seedExternals seedDb johnId (releaseNotesBody janeId) freshId)) = 201 \<and>
   tasks (snd (createTask seedExternals seedDb johnId (releaseNotesBody janeId) freshId)) =
     tasks seedDb @ [newTask seedExternals (releaseNotesBody janeId) freshId] \<and>
   \<not> ownerOrMember seedDb samId websiteProject \<and>
   createTask seedExternals seedDb johnId (releaseNotesBody samId) freshId =
     (fail 400 ''Assignee does not have access to this project'', seedDb)"
proof -
  have a: "websiteProject \<in> set (projects seedDb)" by (simp add: seed_defs)
  have b: "distinct (map project_id (projects seedDb))" by (simp add: seed_defs)
  have c: "participantsAreUsers seedDb" by (simp add: participantsAreUsers_def seed_defs)
  have e: "ownerOrMember seedDb johnId websiteProject"
    by (simp add: ownerOrMember_def seed_defs)
  have s1: "createTaskSchema seedExternals (releaseNotesBody janeId) = []"
    by (simp add: createTaskSchema_def releaseNotesBody_def seedExternals_def issueIf_def optionalBad_def
        lengthBetween_def seed_defs)
  have s2: "createTaskSchema seedExternals (releaseNotesBody samId) = []"
    by (simp add: createTaskSchema_def releaseNotesBody_def seedExternals_def issueIf_def optionalBad_def
        lengthBetween_def seed_defs)
  have p: "ctb_projectId (releaseNotesBody x) = Some (project_id websiteProject)" for x
    by (simp add: releaseNotesBody_def websiteProject_def)
  have q: "ctb_assigneeId (releaseNotesBody x) = Some x" for x by (simp add: releaseNotesBody_def)
  have ne: "janeId \<noteq> []" "samId \<noteq> []" by (simp_all add: seed_defs)
  have f: "freshId \<notin> task_id ` set (tasks seedDb)" by (simp add: seed_defs freshId_def)
  have y: "ownerOrMember seedDb janeId websiteProject"
    by (simp add: ownerOrMember_def seed_defs)
  have n: "\<not> ownerOrMember seedDb samId websiteProject"
    by (simp add: ownerOrMember_def seed_defs)
  note J = create_task_assignee[OF a b c e s1 p q ne(1) f]
  note S = create_task_assignee[OF a b c e s2 p q ne(2) f]
  from J y have j: "createTask seedExternals seedDb johnId (releaseNotesBody janeId) freshId =
      (ok 201 (Some ''Task created successfully'') (TaskData (newTask seedExternals (releaseNotesBody janeId) freshId)),
       seedDb\<lparr>tasks := tasks seedDb @ [newTask seedExternals (releaseNotesBody janeId) freshId]\<rparr>)"
    by blast
  from S n have s: "createTask seedExternals seedDb johnId (releaseNotesBody samId) freshId =
     (fail 400 ''Assignee does not have access to this project'', seedDb)"
    by blast
  have j1: "res_status (fst (createTask seedExternals seedDb johnId (releaseNotesBody janeId) freshId)) = 201"
    by (simp add: j ok_def)
  have j2: "tasks (snd (createTask seedExternals seedDb johnId (releaseNotesBody janeId) freshId)) =
     tasks seedDb @ [newTask seedExternals (releaseNotesBody janeId) freshId]"
    by (simp add: j)
  show ?thesis using a b c e s1 s2 f y j1 j2 n s by blast
qed

section \<open>Listing order\<close>

lemma sorted_insertBy:
  assumes total: "\<And>a b. before a b \<or> before b a"
    and trans: "\<And>a b c. before a b \<Longrightarrow> before b c \<Longrightarrow> before a c"
  shows "sorted_wrt before xs \<Longrightarrow> sorted_wrt before (insertBy before x xs)"
proof (induction xs)
  case Nil
  then show ?case by simp
next
  case (Cons y ys)
  show ?case
  proof (cases "before x y")
    case True
    with Cons.prems trans show ?thesis by auto
  next
    case False
    with total have "before y x" by blast
    with Cons False show ?thesis by (auto simp: set_insertBy)
  qed
qed

lemma sorted_orderBy:
  assumes "\<And>a b. before a b \<or> before b a"
    and "\<And>a b c. before a b \<Longrightarrow> before b c \<Longrightarrow> before a c"
  shows "sorted_wrt before (orderBy before xs)"
  unfolding orderBy_def
  by (induction xs) (auto intro: sorted_insertBy[OF assms])

lemma statusRank_inj: "statusRank a = statusRank b \<longleftrightarrow> a = b"
  by (cases a; cases b) simp_all

lemma priorityRank_inj: "priorityRank a = priorityRank b \<longleftrightarrow> a = b"
  by (cases a; cases b) simp_all

lemma dueNullsLast_iff: "dueNullsLast a b \<longleftrightarrow> keyLess a b \<or> a = b"
  by (cases a; cases b) (auto simp: dueNullsLast_def)

lemma taskBefore_listedBefore:
  "taskBefore [(col_status, asc), (col_priority, desc), (col_dueDate, asc)] = listedBefore"
  by (intro ext) (auto simp: listedBefore_def statusRank_inj priorityRank_inj dueNullsLast_iff)

lemma dueNullsLast_total: "dueNullsLast a b \<or> dueNullsLast b a"
  by (cases a; cases b) (auto simp: dueNullsLast_def)

lemma dueNullsLast_trans: "dueNullsLast a b \<Longrightarrow> dueNullsLast b c \<Longrightarrow> dueNullsLast a c"
  by (cases a; cases b; cases c) (auto simp: dueNullsLast_def)

lemma listedBefore_total: "listedBefore a b \<or> listedBefore b a"
proof -
  consider "statusRank (task_status a) < statusRank (task_status b)"
    | "statusRank (task_status b) < statusRank (task_status a)"
    | "task_status a = task_status b" "priorityRank (priority b) < priorityRank (priority a)"
    | "task_status a = task_status b" "priorityRank (priority a) < priorityRank (priority b)"
    | "task_status a = task_status b" "priority a = priority b"
    using statusRank_inj[of "task_status a" "task_status b"]
      priorityRank_inj[of "priority a" "priority b"] by linarith
  then show ?thesis
    using dueNullsLast_total[of "dueDate a" "dueDate b"]
    by cases (auto simp: listedBefore_def)
qed

lemma listedBefore_trans:
  assumes "listedBefore a b" "listedBefore b c"
  shows "listedBefore a c"
  using assms dueNullsLast_trans[of "dueDate a" "dueDate b" "dueDate c"]
  unfolding listedBefore_def by (auto simp: statusRank_inj priorityRank_inj)

text \<open>
  Claim C9.  Whenever its filters name enum values, getTasks answers with a task
  list that is sorted by status ascending, then priority descending (URGENT, HIGH,
  MEDIUM, LOW), then due date ascending with the undated tasks last; and getProjects
  answers with a project list sorted by creation time descending.
\<close>

theorem listings_ordered:
  "((truthy status \<longrightarrow> parseTaskStatus (the status) \<noteq> None) \<and>
    (truthy priority' \<longrightarrow> parsePriority (the priority') \<noteq> None) \<longrightarrow>
      (\<exists>rows. fst (getTasks d u projectId status priority' assigneeId') =
                 ok 200 None (TaskList rows) \<and>
              sorted_wrt listedBefore rows)) \<and>
   ((truthy projectStatus \<longrightarrow> parseProjectStatus (the projectStatus) \<noteq> None) \<longrightarrow>
      (\<exists>rows. fst (getProjects d u projectStatus search) = ok 200 None (ProjectList rows) \<and>
              sorted_wrt (\<lambda>p q. createdAt q \<le> createdAt p) rows))"
proof -
  have t: "sorted_wrt listedBefore (orderBy listedBefore xs)" for xs
    using listedBefore_total listedBefore_trans by (rule sorted_orderBy)
  have p: "sorted_wrt (\<lambda>p q. createdAt q \<le> createdAt p)
             (orderBy (\<lambda>p q. createdAt q \<le> createdAt p) xs)" for xs :: "project list"
    by (rule sorted_orderBy) auto
  have tasks: "\<exists>rows. fst (getTasks d u projectId status priority' assigneeId') =
                 ok 200 None (TaskList rows) \<and> sorted_wrt listedBefore rows"
    if "truthy status \<longrightarrow> parseTaskStatus (the status) \<noteq> None"
      "truthy priority' \<longrightarrow> parsePriority (the priority') \<noteq> None"
    using that t by (auto simp: getTasks_def taskBefore_listedBefore)
  have projs: "\<exists>rows. fst (getProjects d u projectStatus search) = ok 200 None (ProjectList rows) \<and>
              sorted_wrt (\<lambda>p q. createdAt q \<le> createdAt p) rows"
    if "truthy projectStatus \<longrightarrow> parseProjectStatus (the projectStatus) \<noteq> None"
  proof (cases "truthy projectStatus")
    case True
    with that obtain st where "parseProjectStatus (the projectStatus) = Some st" by auto
    with True p show ?thesis
      by (cases "truthy search") (auto simp: getProjects_def Let_def truthy_def)
  next
    case False
    with p show ?thesis
      by (cases "truthy search") (auto simp: getProjects_def Let_def)
  qed
  from tasks projs show ?thesis by blast
qed

theorem listings_ordered_witness:
  "\<not> truthy None \<and>
   fst (getTasks seedDb johnId None None None None) =
     ok 200 None (TaskList [migrationTask, navTask, mockupTask, emailTask]) \<and>
   sorted_wrt listedBefore [migrationTask, navTask, mockupTask, emailTask] \<and>
   fst (getTasks
          (seedDb\<lparr>tasks := [migrationTask, migrationTask\<lparr>task_id := freshId, dueDate := Some 5\<rparr>]\<rparr>)
          johnId None None None None) =
     ok 200 None
       (TaskList [migrationTask\<lparr>task_id := freshId, dueDate := Some 5\<rparr>, migrationTask]) \<and>
   fst (getProjects seedDb johnId None None) =
     ok 200 None (ProjectList [marketingProject, websiteProject])"
proof -
  have n: "\<not> truthy None" by (simp add: truthy_def)
  have vis: "taskProjectVisible seedDb johnId t = (task_projectId t = websiteId \<or> task_projectId t = marketingId)" for t
    by (auto simp: taskProjectVisible_def ownerOrMember_def seed_defs)
  have g: "fst (getTasks seedDb johnId None None None None) =
     ok 200 None (TaskList [migrationTask, navTask, mockupTask, emailTask])"
    by (simp add: getTasks_def n vis orderBy_def) (simp add: seed_defs)
  note T = listings_ordered[of None None seedDb johnId None None None None]
  from T n obtain rows where r: "fst (getTasks seedDb johnId None None None None) =
      ok 200 None (TaskList rows)" and so: "sorted_wrt listedBefore rows"
    by blast
  from r g have "rows = [migrationTask, navTask, mockupTask, emailTask]"
    by (simp add: ok_def)
  with so have s: "sorted_wrt listedBefore [migrationTask, navTask, mockupTask, emailTask]"
    by simp
  have vis2: "taskProjectVisible
      (seedDb\<lparr>tasks := [migrationTask, migrationTask\<lparr>task_id := freshId, dueDate := Some 5\<rparr>]\<rparr>)
      johnId t = (task_projectId t = websiteId \<or> task_projectId t = marketingId)" for t
    by (auto simp: taskProjectVisible_def ownerOrMember_def seed_defs)
  have g2: "fst (getTasks
          (seedDb\<lparr>tasks := [migrationTask, migrationTask\<lparr>task_id := freshId, dueDate := Some 5\<rparr>]\<rparr>)
          johnId None None None None) =
     ok 200 None
       (TaskList [migrationTask\<lparr>task_id := freshId, dueDate := Some 5\<rparr>, migrationTask])"
    by (simp add: getTasks_def n vis2 orderBy_def) (simp add: seed_defs)
  have g3: "fst (getProjects seedDb johnId None None) =
     ok 200 None (ProjectList [marketingProject, websiteProject])"
    by (simp add: getProjects_def Let_def n orderBy_def ownerOrMember_def seed_defs)
  show ?thesis using n g s g2 g3 by blast
qed

section \<open>Listing filters\<close>

text \<open>The filters of getTasks only narrow: whatever they are, each returned task is
  a stored task of a project the actor can see, and is in the unfiltered listing.\<close>

lemma task_filters_only_narrow:
  assumes "fst (getTasks d u projectId status priority' assigneeId') = ok 200 None (TaskList rows)"
  shows "\<exists>allRows. fst (getTasks d u None None None None) = ok 200 None (TaskList allRows) \<and>
           set rows \<subseteq> set allRows \<and>
           (\<forall>t \<in> set rows. t \<in> set (tasks d) \<and> canSeeProject d u (task_projectId t))"
proof -
  have n: "\<not> truthy None" by (simp add: truthy_def)
  have all: "fst (getTasks d u None None None None) = ok 200 None (TaskList
      (orderBy (taskBefore [(col_status, asc), (col_priority, desc), (col_dueDate, asc)])
         (filter (taskProjectVisible d u) (tasks d))))"
    by (simp add: getTasks_def n)
  from assms have "set rows \<subseteq> {t \<in> set (tasks d). taskProjectVisible d u t}"
    by (auto simp: getTasks_def ok_def fail_def set_orderBy split: if_splits)
  then have "set rows \<subseteq> set (orderBy (taskBefore [(col_status, asc), (col_priority, desc), (col_dueDate, asc)])
         (filter (taskProjectVisible d u) (tasks d))) \<and>
      (\<forall>t \<in> set rows. t \<in> set (tasks d) \<and> canSeeProject d u (task_projectId t))"
    by (auto simp: set_orderBy taskProjectVisible_iff)
  with all show ?thesis by blast
qed

text \<open>
  Claim C1, on the code.  In the seed database Jane neither owns "Marketing Campaign"
  nor is a member of it, and her unfiltered project listing holds "Website Redesign"
  only; with the filter \<open>search = marketing\<close> getProjects returns "Marketing Campaign"
  to her: assigning \<open>where.OR\<close> for the search replaces the owner-or-member clause.
\<close>

theorem project_search_replaces_visibility:
  "marketingProject \<in> set (projects seedDb) \<and>
   ownerId marketingProject \<noteq> janeId \<and>
   \<not> ownerOrMember seedDb janeId marketingProject \<and>
   fst (getProjects seedDb janeId None None) = ok 200 None (ProjectList [websiteProject]) \<and>
   fst (getProjects seedDb janeId None (Some ''marketing'')) =
     ok 200 None (ProjectList [marketingProject])"
proof -
  have n: "\<not> truthy None" "truthy (Some ''marketing'')" by (simp_all add: truthy_def)
  have a: "marketingProject \<in> set (projects seedDb)" by (simp add: seed_defs)
  have b: "ownerId marketingProject \<noteq> janeId" by (simp add: seed_defs)
  have c: "\<not> ownerOrMember seedDb janeId marketingProject"
    by (simp add: ownerOrMember_def seed_defs)
  have d: "fst (getProjects seedDb janeId None None) = ok 200 None (ProjectList [websiteProject])"
    by (simp add: getProjects_def Let_def n orderBy_def ownerOrMember_def seed_defs)
  have e: "fst (getProjects seedDb janeId None (Some ''marketing'')) =
     ok 200 None (ProjectList [marketingProject])"
    by (simp add: getProjects_def Let_def n orderBy_def containsInsensitive_def lowerChar_def
        seed_defs)
  from a b c d e show ?thesis by blast
qed

section \<open>The assignee invariant\<close>

lemma createTaskRow_Inr:
  "createTaskRow d t = Inr d' \<Longrightarrow> d' = d\<lparr>tasks := tasks d @ [t]\<rparr>"
  unfolding createTaskRow_def by (auto split: if_splits)

text \<open>createTask keeps the assignee invariant, provided the \<open>.uuid()\<close> format
  rejects the empty string.\<close>

lemma createTask_keeps_assignee_invariant:
  assumes inv: "assigneeInvariant d" and empty: "\<not> isUuid X []"
  shows "assigneeInvariant (snd (createTask X d u b newId))"
proof (cases "snd (createTask X d u b newId) = d")
  case True
  with inv show ?thesis by simp
next
  case False
  then have ok: "createTaskSchema X b = []"
    and ex: "findFirst (\<lambda>p. project_id p = the (ctb_projectId b) \<and> ownerOrMember d u p) (projects d) \<noteq> None"
    and chk: "\<not> (truthy (ctb_assigneeId b) \<and>
        findFirst (\<lambda>p. project_id p = the (ctb_projectId b) \<and>
           ownerOrMember d (the (ctb_assigneeId b)) p) (projects d) = None)"
    and d': "snd (createTask X d u b newId) = d\<lparr>tasks := tasks d @ [newTask X b newId]\<rparr>"
    unfolding createTask_def
    by (auto split: if_splits option.splits sum.splits dest: createTaskRow_Inr)
  have om: "ownerOrMember (d\<lparr>tasks := ts\<rparr>) a p = ownerOrMember d a p" for ts a p
    by (simp add: ownerOrMember_def)
  have new: "case assigneeId (newTask X b newId) of
          None \<Rightarrow> True
        | Some a \<Rightarrow> (\<exists>p \<in> set (projects d).
             project_id p = task_projectId (newTask X b newId) \<and> ownerOrMember d a p)"
  proof (cases "ctb_assigneeId b")
    case None
    then show ?thesis by (simp add: newTask_def)
  next
    case (Some a)
    with ok empty have "a \<noteq> []"
      by (auto simp: createTaskSchema_def issueIf_def optionalBad_def split: if_splits)
    with Some have "truthy (ctb_assigneeId b)" by (simp add: truthy_def)
    with chk Some obtain p where
      "findFirst (\<lambda>p. project_id p = the (ctb_projectId b) \<and> ownerOrMember d a p) (projects d) = Some p"
      by auto
    then have "p \<in> set (projects d) \<and> project_id p = the (ctb_projectId b) \<and> ownerOrMember d a p"
      by (auto dest: findFirst_Some_set)
    with Some show ?thesis by (auto simp: newTask_def)
  qed
  from inv new show ?thesis
    unfolding d' assigneeInvariant_def by (auto simp: om split: option.splits)
qed

text \<open>
  Claim C4, on the code.  The seed database satisfies the assignee invariant.  Jane,
  a member of "Website Redesign", updates the navigation task of that project with
  \<open>assigneeId\<close> set to Sam, who is neither owner nor member of it: the body passes
  the schema, updateTask answers 200 and stores Sam as assignee, and the invariant no
  longer holds.
\<close>

theorem update_task_assignee_unchecked:
  "assigneeInvariant seedDb \<and>
   canSeeTask seedDb janeId navTaskId \<and>
   updateTaskSchema seedExternals (reassignBody samId) = [] \<and>
   \<not> canSeeProject seedDb samId websiteId \<and>
   updateTask seedExternals seedDb janeId navTaskId (reassignBody samId) =
     (ok 200 (Some ''Task updated successfully'') (TaskData (navTask\<lparr>assigneeId := Some samId\<rparr>)),
      seedDb\<lparr>tasks := [mockupTask, navTask\<lparr>assigneeId := Some samId\<rparr>, migrationTask,
                         emailTask]\<rparr>) \<and>
   \<not> assigneeInvariant (snd (updateTask seedExternals seedDb janeId navTaskId (reassignBody samId)))"
proof -
  have a: "assigneeInvariant seedDb"
    by (simp add: assigneeInvariant_def ownerOrMember_def seed_defs)
  have b: "canSeeTask seedDb janeId navTaskId"
    by (simp add: canSeeTask_def canSeeProject_def seed_defs)
  have c: "updateTaskSchema seedExternals (reassignBody samId) = []"
    by (simp add: updateTaskSchema_def reassignBody_def issueIf_def optionalBad_def
        seedExternals_def samId_def)
  have d: "\<not> canSeeProject seedDb samId websiteId"
    by (simp add: canSeeProject_def seed_defs)
  have vis: "taskProjectVisible seedDb janeId t = (task_projectId t = websiteId)" for t
    by (auto simp: taskProjectVisible_def ownerOrMember_def seed_defs)
  have ff: "findFirst (\<lambda>t. task_id t = navTaskId \<and> taskProjectVisible seedDb janeId t)
      (tasks seedDb) = Some navTask"
    by (simp add: findFirst_def vis) (simp add: seed_defs)
  have upd: "updateTaskData seedExternals (reassignBody samId) t = t\<lparr>assigneeId := Some samId\<rparr>" for t
    by (simp add: updateTaskData_def reassignBody_def truthy_def)
  have row: "updateTaskRow seedDb navTaskId (updateTaskData seedExternals (reassignBody samId)) =
      Inr (seedDb\<lparr>tasks := [mockupTask, navTask\<lparr>assigneeId := Some samId\<rparr>, migrationTask,
                         emailTask]\<rparr>)"
    unfolding updateTaskRow_def upd by (simp add: seed_defs)
  have e: "updateTask seedExternals seedDb janeId navTaskId (reassignBody samId) =
     (ok 200 (Some ''Task updated successfully'') (TaskData (navTask\<lparr>assigneeId := Some samId\<rparr>)),
      seedDb\<lparr>tasks := [mockupTask, navTask\<lparr>assigneeId := Some samId\<rparr>, migrationTask,
                         emailTask]\<rparr>)"
    unfolding updateTask_def using c ff row upd by simp
  have f: "\<not> assigneeInvariant (seedDb\<lparr>tasks := [mockupTask, navTask\<lparr>assigneeId := Some samId\<rparr>,
      migrationTask, emailTask]\<rparr>)"
    by (simp add: assigneeInvariant_def ownerOrMember_def seed_defs)
  from a b c d e f show ?thesis by simp
qed

theorem update_task_assignee_unchecked_witness:
  "\<exists>t \<in> set (tasks (snd (updateTask seedExternals seedDb janeId navTaskId (reassignBody samId)))).
     assigneeId t = Some samId \<and> task_projectId t = websiteId \<and>
     \<not> canSeeProject seedDb samId websiteId"
proof -
  note T = update_task_assignee_unchecked
  from T have "tasks (snd (updateTask seedExternals seedDb janeId navTaskId (reassignBody samId))) =
      [mockupTask, navTask\<lparr>assigneeId := Some samId\<rparr>, migrationTask, emailTask]"
    by simp
  moreover from T have "\<not> canSeeProject seedDb samId websiteId" by blast
  moreover have "task_projectId (navTask\<lparr>assigneeId := Some samId\<rparr>) = websiteId"
    by (simp add: navTask_def)
  ultimately show ?thesis by simp
qed

section \<open>Owner-only mutations\<close>

text \<open>An actor who does not own the project of the path changes nothing through
  updateProject, deleteProject, addMember or removeMember.\<close>

lemma non_owner_cannot_mutate:
  assumes "\<not> isOwner d u i"
  shows "snd (updateProject X d u i b) = d \<and> snd (deleteProject d u i) = d \<and>
         snd (addMember d u i mb newId) = d \<and> snd (removeMember d u i memberId) = d"
  using owner_lookup_denied[OF assms]
  by (simp add: updateProject_def deleteProject_def addMember_def removeMember_def)

text \<open>
  Claim C6, on the code.  John owns "Marketing Campaign" and does not own "Website
  Redesign".  removeMember on the path of his own project with the id of Jane's
  membership row, which belongs to "Website Redesign", answers 200 and deletes that
  row: the delete selects the row by its id alone.
\<close>

theorem remove_member_crosses_projects:
  "isOwner seedDb johnId marketingId \<and>
   \<not> isOwner seedDb johnId websiteId \<and>
   janeMembership \<in> set (projectMembers seedDb) \<and>
   member_projectId janeMembership = websiteId \<and>
   removeMember seedDb johnId marketingId janeMembershipId =
     (ok 200 (Some ''Member removed successfully'') NoData,
      seedDb\<lparr>projectMembers := [johnMembership]\<rparr>)"
proof -
  have a: "isOwner seedDb johnId marketingId" by (simp add: isOwner_def seed_defs)
  have b: "\<not> isOwner seedDb johnId websiteId" by (simp add: isOwner_def seed_defs)
  have c: "janeMembership \<in> set (projectMembers seedDb)" by (simp add: seed_defs)
  have d: "member_projectId janeMembership = websiteId" by (simp add: janeMembership_def)
  have e: "removeMember seedDb johnId marketingId janeMembershipId =
     (ok 200 (Some ''Member removed successfully'') NoData,
      seedDb\<lparr>projectMembers := [johnMembership]\<rparr>)"
    by (simp add: removeMember_def findFirst_def deleteMemberRow_def seed_defs)
  from a b c d e show ?thesis by blast
qed

end
